theory Spec2Isabelle
  imports Complex_Main
begin

section \<open>The cuSPARSELt binding of CusparseLtKernels.cpp\<close>

text \<open>
  The file binds the vendor's structured-sparsity library into the tensor framework. What
  it computes itself is the sequence of vendor calls and their arguments, and a handful of
  member updates. The embedding therefore keeps a log of the vendor calls (with the
  arguments the code passes) and threads the object's members through every method. The
  vendor library is a parameter: for the i-th call of a run it supplies the status code and
  whatever the call stores through its out-parameters.
\<close>

subsection \<open>Enumerations of the framework and of the vendor headers\<close>

datatype ScalarType = kInt8 | bFloat16 | kHalf | kFloat | kDouble

datatype cudaDataType = CUDA_R_16F | CUDA_R_8I | CUDA_R_B16F

datatype cusparseComputeType = CUSPARSE_COMPUTE_16F | CUSPARSE_COMPUTE_32I

datatype cusparseOperation_t =
  CUSPARSE_OPERATION_NON_TRANSPOSE | CUSPARSE_OPERATION_TRANSPOSE

datatype cusparseOrder_t = CUSPARSE_ORDER_ROW | CUSPARSE_ORDER_COL

datatype cusparseLtSparsity_t = CUSPARSELT_SPARSITY_50_PERCENT

datatype cusparseLtPruneAlg_t = CUSPARSELT_PRUNE_SPMMA_TILE | CUSPARSELT_PRUNE_SPMMA_STRIP

datatype cudaDeviceAttr =
  cudaDevAttrComputeCapabilityMajor | cudaDevAttrComputeCapabilityMinor

datatype cusparseLtMatmulDescAttribute_t =
  CUSPARSELT_MATMUL_BIAS_POINTER | CUSPARSELT_MATMUL_BIAS_STRIDE

datatype cusparseLtMatmulAlgAttribute_t = CUSPARSELT_MATMUL_ALG_CONFIG_ID

datatype cusparseLtMatmulAlg_t = CUSPARSELT_MATMUL_ALG_DEFAULT

text \<open>Device pointers are addresses; \<open>nullptr\<close> is address 0.\<close>

type_synonym ptr = nat

definition nullptr :: ptr where
  "nullptr = 0"

text \<open>
  The handle is a vendor structure. The member has no initialiser, so it holds
  indeterminate bytes until \<open>cusparseLtInit\<close> has filled it.
\<close>

datatype cusparseLtHandle_t = handle_uninitialized | handle_initialized

text \<open>
  The three matrix descriptors are vendor structures that the binding only passes by
  address; a call is logged with the member whose address it received.
\<close>

datatype cusparseLtMatDescriptor_ref =
  sparse_input_descriptor | dense_input_descriptor | res_descriptor

subsection \<open>Tensors\<close>

text \<open>
  Of a tensor the binding reads its sizes, its dtype, whether it is contiguous and its data
  pointer; \<open>new_empty\<close> also copies the device.
\<close>

record Tensor =
  sizes :: "int list"
  dtype :: ScalarType
  device :: nat
  is_contiguous :: bool
  data_ptr :: ptr

subsection \<open>The vendor calls\<close>

text \<open>
  One constructor per entry point of the CUDA runtime and of cuSPARSELt that the file
  names, each with the arguments in the order of the call. The two pruning entry points
  appear in the source only inside comments.
\<close>

datatype api_call =
    cudaDeviceGetAttribute cudaDeviceAttr int
  | cusparseLtInit
  | cusparseLtStructuredDescriptorInit cusparseLtHandle_t cusparseLtMatDescriptor_ref
      int int int nat cudaDataType cusparseOrder_t cusparseLtSparsity_t
  | cusparseLtSpMMAPrune2 cusparseLtHandle_t cusparseLtMatDescriptor_ref
      bool cusparseOperation_t ptr ptr cusparseLtPruneAlg_t ptr
  | cusparseLtSpMMAPruneCheck2 cusparseLtHandle_t cusparseLtMatDescriptor_ref
      bool cusparseOperation_t ptr ptr ptr
  | cusparseLtSpMMACompressedSize2 cusparseLtHandle_t cusparseLtMatDescriptor_ref
  | cudaMalloc nat
  | cusparseLtSpMMACompress2 cusparseLtHandle_t cusparseLtMatDescriptor_ref
      bool cusparseOperation_t ptr ptr ptr ptr
  | cusparseLtDenseDescriptorInit cusparseLtHandle_t cusparseLtMatDescriptor_ref
      int int int nat cudaDataType cusparseOrder_t
  | cusparseLtMatmulDescriptorInit cusparseLtHandle_t
      cusparseOperation_t cusparseOperation_t
      cusparseLtMatDescriptor_ref cusparseLtMatDescriptor_ref
      cusparseLtMatDescriptor_ref cusparseLtMatDescriptor_ref cusparseComputeType
  | cusparseLtMatmulDescSetAttribute cusparseLtHandle_t cusparseLtMatmulDescAttribute_t int
  | cusparseLtMatmulAlgSelectionInit cusparseLtHandle_t cusparseLtMatmulAlg_t
  | cusparseLtMatmulPlanInit cusparseLtHandle_t
  | cusparseLtMatmulGetWorkspace cusparseLtHandle_t
  | cusparseLtMatmulSearch cusparseLtHandle_t real ptr ptr real ptr ptr ptr ptr int
  | cusparseLtMatmulAlgGetAttribute cusparseLtHandle_t cusparseLtMatmulAlgAttribute_t
  | cusparseLtMatmulAlgSetAttribute cusparseLtHandle_t cusparseLtMatmulAlgAttribute_t int
  | cusparseLtMatmul cusparseLtHandle_t real ptr ptr real ptr ptr ptr ptr int
  | cusparseLtMatDescriptorDestroy cusparseLtMatDescriptor_ref
  | cusparseLtMatmulPlanDestroy

text \<open>
  The vendor, as the binding sees it: the status the i-th call of a run returns, and the
  values it stores through its out-parameters (an \<open>int\<close>, two \<open>size_t\<close>, a pointer).
  Both success codes are 0 in the vendor's headers. A local that receives an out-value is
  read only after the status check; for the two members that receive one
  (\<open>d_workspace\<close>, \<open>alg_id\<close>) a call that does not succeed is taken to leave the
  member as it was.
\<close>

record vendor =
  status :: "nat \<Rightarrow> int"
  out_int :: "nat \<Rightarrow> int"
  out_size :: "nat \<Rightarrow> nat"
  out_size2 :: "nat \<Rightarrow> nat"
  out_ptr :: "nat \<Rightarrow> ptr"

definition cudaSuccess :: int where
  "cudaSuccess = 0"

definition CUSPARSE_STATUS_SUCCESS :: int where
  "CUSPARSE_STATUS_SUCCESS = 0"

subsection \<open>The object and the machine\<close>

text \<open>
  The members of \<open>struct CusparseLt\<close>, apart from the descriptors, the plan and the
  algorithm selection (opaque vendor structures, see above).
\<close>

record CusparseLt =
  sparse_compressed :: Tensor
  handle :: cusparseLtHandle_t
  alignment :: nat
  alpha :: real
  beta :: real
  num_streams :: int
  stream :: ptr
  streams :: ptr
  d_workspace :: ptr
  alg_id :: int
  num_A_rows :: int
  pruning_algo :: cusparseLtPruneAlg_t
  opA :: cusparseOperation_t
  type :: cudaDataType
  compute_type :: cusparseComputeType

definition order :: cusparseOrder_t where
  "order = CUSPARSE_ORDER_ROW"

text \<open>
  The machine: the object the method runs on, the log of vendor calls (oldest first), what
  was printed (format string and arguments), and the number of tensor storages that the
  framework's allocator has handed out.
\<close>

record machine =
  self :: CusparseLt
  calls :: "api_call list"
  stdout :: "(string \<times> int list) list"
  storages :: nat

datatype error = CudaApiFailed int | CusparseApiFailed int | IndexError nat

type_synonym 'a action = "machine \<Rightarrow> (error + 'a) \<times> machine"

definition andThen :: "'a action \<Rightarrow> ('a \<Rightarrow> 'b action) \<Rightarrow> 'b action" where
  "andThen f g s = (case f s of (Inl e, s') \<Rightarrow> (Inl e, s') | (Inr x, s') \<Rightarrow> g x s')"

definition done_with :: "'a \<Rightarrow> 'a action" where
  "done_with x s = (Inr x, s)"

definition member :: "(CusparseLt \<Rightarrow> 'a) \<Rightarrow> 'a action" where
  "member f s = (Inr (f (self s)), s)"

definition assign :: "(CusparseLt \<Rightarrow> CusparseLt) \<Rightarrow> unit action" where
  "assign f s = (Inr (), s\<lparr>self := f (self s)\<rparr>)"

definition printf :: "string \<Rightarrow> int list \<Rightarrow> unit action" where
  "printf fmt args s = (Inr (), s\<lparr>stdout := stdout s @ [(fmt, args)]\<rparr>)"

text \<open>
  \<open>CHECK_CUDA(func)\<close> and \<open>CHECK_CUSPARSE(func)\<close>: evaluate the call, compare its
  status with the success code, and raise through \<open>TORCH_CHECK\<close> otherwise. The call is
  built from the members at the moment it is made; the action returns the index of the
  call in the log, under which the vendor's out-values are found.
\<close>

definition CHECK_CUDA :: "vendor \<Rightarrow> (CusparseLt \<Rightarrow> api_call) \<Rightarrow> nat action" where
  "CHECK_CUDA v func s =
     (let i = length (calls s);
          s' = s\<lparr>calls := calls s @ [func (self s)]\<rparr>
      in if status v i = cudaSuccess then (Inr i, s')
         else (Inl (CudaApiFailed (status v i)), s'))"

definition CHECK_CUSPARSE :: "vendor \<Rightarrow> (CusparseLt \<Rightarrow> api_call) \<Rightarrow> nat action" where
  "CHECK_CUSPARSE v func s =
     (let i = length (calls s);
          s' = s\<lparr>calls := calls s @ [func (self s)]\<rparr>
      in if status v i = CUSPARSE_STATUS_SUCCESS then (Inr i, s')
         else (Inl (CusparseApiFailed (status v i)), s'))"

text \<open>
  Modelled from the spec: \<open>Tensor::size(d)\<close> is framework code outside the file. For a
  tensor of shape m x k, \<open>size(0)\<close> is m and \<open>size(1)\<close> is k; a tensor that has no
  d-th dimension makes it raise an index error.
\<close>

definition size_at :: "Tensor \<Rightarrow> nat \<Rightarrow> int action" where
  "size_at t d s =
     (if d < length (sizes t) then (Inr (sizes t ! d), s) else (Inl (IndexError d), s))"

text \<open>
  Modelled from the spec: \<open>Tensor::new_empty\<close> is framework code outside the file. It
  returns a result tensor of the given shape, created with the dtype and device of the
  tensor it is called on, on storage that the allocator has not handed out before. The
  allocation is taken to succeed; a new tensor is contiguous.
\<close>

definition new_empty :: "Tensor \<Rightarrow> int list \<Rightarrow> Tensor action" where
  "new_empty t shape s =
     (Inr \<lparr>sizes = shape, dtype = dtype t, device = device t, is_contiguous = True,
           data_ptr = Suc (storages s)\<rparr>,
      s\<lparr>storages := Suc (storages s)\<rparr>)"

subsection \<open>The constructor\<close>

text \<open>
  The default member initialisers and the initialiser list. The members \<open>handle\<close>,
  \<open>num_A_rows\<close> and \<open>opA\<close> have none: the last two keep what the raw storage of the
  new object held.
\<close>

definition member_init :: "Tensor \<Rightarrow> CusparseLt \<Rightarrow> CusparseLt" where
  "member_init t raw =
     \<lparr>sparse_compressed = t, handle = handle_uninitialized, alignment = 16,
      alpha = 1.0, beta = 0.0, num_streams = 0, stream = nullptr, streams = nullptr,
      d_workspace = nullptr, alg_id = 7777, num_A_rows = num_A_rows raw,
      pruning_algo = CUSPARSELT_PRUNE_SPMMA_STRIP, opA = opA raw,
      type = CUDA_R_16F, compute_type = CUSPARSE_COMPUTE_16F\<rparr>"

definition unsupported_message :: string where
  "unsupported_message =
     CHR 0x0A # ''cusparseLt is supported only on GPU devices with''
       @ '' compute capability == 8.0, 8.6, 8.9 current: %d.%d'' @ [CHR 0x0A, CHR 0x0A]"

text \<open>
  The constructor body. An error raised here leaves no object: the caller sees \<open>Inl\<close>
  and the half-built \<open>self\<close> is destroyed.
\<close>

definition CusparseLt_body :: "vendor \<Rightarrow> unit action" where
  "CusparseLt_body v =
     andThen (CHECK_CUDA v (\<lambda>_. cudaDeviceGetAttribute cudaDevAttrComputeCapabilityMajor 0))
       (\<lambda>i1. let major_cc = out_int v i1 in
     andThen (CHECK_CUDA v (\<lambda>_. cudaDeviceGetAttribute cudaDevAttrComputeCapabilityMinor 0))
       (\<lambda>i2. let minor_cc = out_int v i2 in
     if \<not> (major_cc = 8 \<and> minor_cc = 0) \<and>
        \<not> (major_cc = 8 \<and> minor_cc = 6) \<and>
        \<not> (major_cc = 8 \<and> minor_cc = 9)
     then printf unsupported_message [major_cc, minor_cc]
     else
       andThen (CHECK_CUSPARSE v (\<lambda>_. cusparseLtInit))
         (\<lambda>_.
       andThen (assign (\<lambda>obj. obj\<lparr>handle := handle_initialized\<rparr>))
         (\<lambda>_.
       andThen (member sparse_compressed)
         (\<lambda>sc.
       if dtype sc = kInt8
       then assign (\<lambda>obj. obj\<lparr>type := CUDA_R_8I, compute_type := CUSPARSE_COMPUTE_32I\<rparr>)
       else if dtype sc = bFloat16
       then assign (\<lambda>obj. obj\<lparr>type := CUDA_R_B16F, compute_type := CUSPARSE_COMPUTE_32I\<rparr>)
       else done_with ())))))"

definition CusparseLt_new :: "vendor \<Rightarrow> Tensor \<Rightarrow> unit action" where
  "CusparseLt_new v t s = CusparseLt_body v (s\<lparr>self := member_init t (self s)\<rparr>)"

subsection \<open>compress\<close>

definition compress :: "vendor \<Rightarrow> Tensor \<Rightarrow> bool \<Rightarrow> unit action" where
  "compress v sparse_input is_sparse_input_transposed =
     andThen (size_at sparse_input 0) (\<lambda>m.
     andThen (size_at sparse_input 1) (\<lambda>k.
     let is_rowmajor = (order = CUSPARSE_ORDER_ROW) in
     andThen (assign (\<lambda>obj. obj\<lparr>opA :=
         (if is_sparse_input_transposed then CUSPARSE_OPERATION_TRANSPOSE
          else CUSPARSE_OPERATION_NON_TRANSPOSE)\<rparr>)) (\<lambda>_.
     andThen (assign (\<lambda>obj. obj\<lparr>num_A_rows :=
         (if is_sparse_input_transposed then k else m)\<rparr>)) (\<lambda>_.
     let num_A_cols = (if is_sparse_input_transposed then m else k) in
     andThen (member (\<lambda>obj. if is_rowmajor then num_A_cols else num_A_rows obj)) (\<lambda>lda.
     andThen (CHECK_CUSPARSE v (\<lambda>obj. cusparseLtStructuredDescriptorInit
         (handle obj) sparse_input_descriptor (num_A_rows obj) num_A_cols lda
         (alignment obj) (type obj) order CUSPARSELT_SPARSITY_50_PERCENT)) (\<lambda>_.
     andThen (CHECK_CUSPARSE v (\<lambda>obj. cusparseLtSpMMACompressedSize2
         (handle obj) sparse_input_descriptor)) (\<lambda>i.
     let compressed_size = out_size v i; compressed_buffer_size = out_size2 v i in
     andThen (CHECK_CUDA v (\<lambda>_. cudaMalloc compressed_buffer_size)) (\<lambda>j.
     let compressedBuffer = out_ptr v j in
     andThen (CHECK_CUSPARSE v (\<lambda>obj. cusparseLtSpMMACompress2
         (handle obj) sparse_input_descriptor True (opA obj)
         (data_ptr sparse_input) (data_ptr (sparse_compressed obj))
         compressedBuffer (stream obj))) (\<lambda>_.
     done_with ())))))))))"

subsection \<open>The multiply paths\<close>

text \<open>
  \<open>cusparselt_helper\<close> passes \<open>weight_compressed.data_ptr()\<close> as the sparse operand
  of the search and of the multiplication. The file declares no \<open>weight_compressed\<close>:
  the struct's tensor member is \<open>sparse_compressed\<close>. What the name denotes is therefore
  not fixed by the source, and every statement about the multiply paths is made for any
  tensor it may denote: the model takes that tensor as the argument \<open>weight_compressed\<close>.
\<close>

definition cusparselt_helper ::
  "vendor \<Rightarrow> Tensor \<Rightarrow> Tensor \<Rightarrow> ptr \<Rightarrow> int \<Rightarrow> Tensor action" where
  "cusparselt_helper v weight_compressed input dBias biasStride =
     andThen (size_at input 0) (\<lambda>k.
     andThen (size_at input 1) (\<lambda>n.
     andThen (member num_A_rows) (\<lambda>rows.
     andThen (new_empty input [rows, n]) (\<lambda>res.
     let is_dense_input_transposed = (\<not> is_contiguous input);
         opB = (if is_dense_input_transposed then CUSPARSE_OPERATION_TRANSPOSE
                else CUSPARSE_OPERATION_NON_TRANSPOSE);
         num_B_rows = (if is_dense_input_transposed then n else k);
         num_B_cols = (if is_dense_input_transposed then k else n)
     in
     andThen (member num_A_rows) (\<lambda>num_C_rows.
     let num_C_cols = n;
         is_rowmajor = (order = CUSPARSE_ORDER_ROW);
         ldb = (if is_rowmajor then num_B_cols else num_B_rows);
         ldc = (if is_rowmajor then num_C_cols else num_C_rows)
     in
     andThen (CHECK_CUSPARSE v (\<lambda>obj. cusparseLtDenseDescriptorInit
         (handle obj) dense_input_descriptor num_B_rows num_B_cols ldb
         (alignment obj) (type obj) order)) (\<lambda>_.
     andThen (CHECK_CUSPARSE v (\<lambda>obj. cusparseLtDenseDescriptorInit
         (handle obj) res_descriptor num_C_rows num_C_cols ldc
         (alignment obj) (type obj) CUSPARSE_ORDER_ROW)) (\<lambda>_.
     andThen (CHECK_CUSPARSE v (\<lambda>obj. cusparseLtMatmulDescriptorInit
         (handle obj) (opA obj) opB sparse_input_descriptor dense_input_descriptor
         res_descriptor res_descriptor (compute_type obj))) (\<lambda>_.
     andThen (CHECK_CUSPARSE v (\<lambda>obj. cusparseLtMatmulDescSetAttribute
         (handle obj) CUSPARSELT_MATMUL_BIAS_POINTER (int dBias))) (\<lambda>_.
     andThen (CHECK_CUSPARSE v (\<lambda>obj. cusparseLtMatmulDescSetAttribute
         (handle obj) CUSPARSELT_MATMUL_BIAS_STRIDE biasStride)) (\<lambda>_.
     andThen (CHECK_CUSPARSE v (\<lambda>obj. cusparseLtMatmulAlgSelectionInit
         (handle obj) CUSPARSELT_MATMUL_ALG_DEFAULT)) (\<lambda>_.
     andThen (CHECK_CUSPARSE v (\<lambda>obj. cusparseLtMatmulPlanInit (handle obj))) (\<lambda>_.
     andThen (CHECK_CUSPARSE v (\<lambda>obj. cusparseLtMatmulGetWorkspace (handle obj))) (\<lambda>i.
     let workspace_size = out_size v i in
     andThen (CHECK_CUDA v (\<lambda>_. cudaMalloc workspace_size)) (\<lambda>j.
     andThen (assign (\<lambda>obj. obj\<lparr>d_workspace := out_ptr v j\<rparr>)) (\<lambda>_.
     andThen (member alg_id) (\<lambda>id.
     andThen
       (if id = 7777 then
          andThen (CHECK_CUSPARSE v (\<lambda>obj. cusparseLtMatmulSearch
              (handle obj) (alpha obj) (data_ptr weight_compressed) (data_ptr input)
              (beta obj) (data_ptr res) (data_ptr res)
              (d_workspace obj) (streams obj) (num_streams obj))) (\<lambda>_.
          andThen (CHECK_CUSPARSE v (\<lambda>obj. cusparseLtMatmulAlgGetAttribute
              (handle obj) CUSPARSELT_MATMUL_ALG_CONFIG_ID)) (\<lambda>g.
          assign (\<lambda>obj. obj\<lparr>alg_id := out_int v g\<rparr>)))
        else
          andThen (CHECK_CUSPARSE v (\<lambda>obj. cusparseLtMatmulAlgSetAttribute
              (handle obj) CUSPARSELT_MATMUL_ALG_CONFIG_ID (alg_id obj))) (\<lambda>_.
          andThen (CHECK_CUSPARSE v (\<lambda>obj. cusparseLtMatmul
              (handle obj) (alpha obj) (data_ptr weight_compressed) (data_ptr input)
              (beta obj) (data_ptr res) (data_ptr res)
              (d_workspace obj) (streams obj) (num_streams obj))) (\<lambda>_.
          done_with ()))) (\<lambda>_.
     andThen (CHECK_CUSPARSE v (\<lambda>_. cusparseLtMatDescriptorDestroy dense_input_descriptor))
       (\<lambda>_.
     andThen (CHECK_CUSPARSE v (\<lambda>_. cusparseLtMatDescriptorDestroy res_descriptor)) (\<lambda>_.
     andThen (CHECK_CUSPARSE v (\<lambda>_. cusparseLtMatmulPlanDestroy)) (\<lambda>_.
     done_with res))))))))))))))))))))"

definition cusparselt_mm :: "vendor \<Rightarrow> Tensor \<Rightarrow> Tensor \<Rightarrow> Tensor action" where
  "cusparselt_mm v weight_compressed input =
     cusparselt_helper v weight_compressed input nullptr 0"

definition cusparselt_addmm :: "vendor \<Rightarrow> Tensor \<Rightarrow> Tensor \<Rightarrow> Tensor \<Rightarrow> Tensor action" where
  "cusparselt_addmm v weight_compressed input bias =
     cusparselt_helper v weight_compressed input (data_ptr bias) 0"

subsection \<open>The registered class\<close>

text \<open>
  \<open>TORCH_LIBRARY\<close> registers the constructor and the three methods. A caller holds the
  object and invokes methods one after the other; an error raised by one of them is the
  caller's to handle, and the object stays as the method left it.
\<close>

datatype method_call =
    call_compress Tensor bool
  | call_cusparselt_mm Tensor
  | call_cusparselt_addmm Tensor Tensor

fun invoke :: "vendor \<Rightarrow> Tensor \<Rightarrow> method_call \<Rightarrow> machine \<Rightarrow> machine" where
  "invoke v wc (call_compress t b) s = snd (compress v t b s)"
| "invoke v wc (call_cusparselt_mm t) s = snd (cusparselt_mm v wc t s)"
| "invoke v wc (call_cusparselt_addmm t bias) s = snd (cusparselt_addmm v wc t bias s)"

fun invoke_all :: "vendor \<Rightarrow> Tensor \<Rightarrow> method_call list \<Rightarrow> machine \<Rightarrow> machine" where
  "invoke_all v wc [] s = s"
| "invoke_all v wc (c # cs) s = invoke_all v wc cs (invoke v wc c s)"

subsection \<open>Reading the log\<close>

text \<open>The pruning entry points, the search, and the calls that hand matrix data to a kernel.\<close>

fun is_prune :: "api_call \<Rightarrow> bool" where
  "is_prune (cusparseLtSpMMAPrune2 _ _ _ _ _ _ _ _) = True"
| "is_prune (cusparseLtSpMMAPruneCheck2 _ _ _ _ _ _ _) = True"
| "is_prune _ = False"

fun is_search :: "api_call \<Rightarrow> bool" where
  "is_search (cusparseLtMatmulSearch _ _ _ _ _ _ _ _ _ _) = True"
| "is_search _ = False"

fun is_multiply :: "api_call \<Rightarrow> bool" where
  "is_multiply (cusparseLtMatmul _ _ _ _ _ _ _ _ _ _) = True"
| "is_multiply _ = False"

fun is_compress :: "api_call \<Rightarrow> bool" where
  "is_compress (cusparseLtSpMMACompress2 _ _ _ _ _ _ _ _) = True"
| "is_compress _ = False"

text \<open>
  The entry points that run a vendor kernel over matrix data: pruning, the pruning check,
  compression, the search and the multiplication. Every other call sets up or tears down
  a descriptor, a plan or a buffer.
\<close>

definition runs_kernel :: "api_call \<Rightarrow> bool" where
  "runs_kernel c \<longleftrightarrow> is_prune c \<or> is_compress c \<or> is_search c \<or> is_multiply c"

text \<open>The scaling factors \<open>alpha\<close> and \<open>beta\<close> a call was given, if it takes them.\<close>

fun scaling_of :: "api_call \<Rightarrow> (real \<times> real) option" where
  "scaling_of (cusparseLtMatmulSearch _ a _ _ b _ _ _ _ _) = Some (a, b)"
| "scaling_of (cusparseLtMatmul _ a _ _ b _ _ _ _ _) = Some (a, b)"
| "scaling_of _ = None"

text \<open>The sparse operand a search or a multiplication was given.\<close>

fun sparse_operand_of :: "api_call \<Rightarrow> ptr option" where
  "sparse_operand_of (cusparseLtMatmulSearch _ _ a _ _ _ _ _ _ _) = Some a"
| "sparse_operand_of (cusparseLtMatmul _ _ a _ _ _ _ _ _ _) = Some a"
| "sparse_operand_of _ = None"

text \<open>The handle a call was given, if it takes one.\<close>

fun handle_of :: "api_call \<Rightarrow> cusparseLtHandle_t option" where
  "handle_of (cusparseLtStructuredDescriptorInit h _ _ _ _ _ _ _ _) = Some h"
| "handle_of (cusparseLtSpMMAPrune2 h _ _ _ _ _ _ _) = Some h"
| "handle_of (cusparseLtSpMMAPruneCheck2 h _ _ _ _ _ _) = Some h"
| "handle_of (cusparseLtSpMMACompressedSize2 h _) = Some h"
| "handle_of (cusparseLtSpMMACompress2 h _ _ _ _ _ _ _) = Some h"
| "handle_of (cusparseLtDenseDescriptorInit h _ _ _ _ _ _ _) = Some h"
| "handle_of (cusparseLtMatmulDescriptorInit h _ _ _ _ _ _ _) = Some h"
| "handle_of (cusparseLtMatmulDescSetAttribute h _ _) = Some h"
| "handle_of (cusparseLtMatmulAlgSelectionInit h _) = Some h"
| "handle_of (cusparseLtMatmulPlanInit h) = Some h"
| "handle_of (cusparseLtMatmulGetWorkspace h) = Some h"
| "handle_of (cusparseLtMatmulSearch h _ _ _ _ _ _ _ _ _) = Some h"
| "handle_of (cusparseLtMatmulAlgGetAttribute h _) = Some h"
| "handle_of (cusparseLtMatmulAlgSetAttribute h _ _) = Some h"
| "handle_of (cusparseLtMatmul h _ _ _ _ _ _ _ _ _) = Some h"
| "handle_of _ = None"

text \<open>
  What every call issued by a method of the object \<open>obj\<close> has in common, and the members
  that no method changes (the cached algorithm id changes only while it is the sentinel).
\<close>

definition issued_by :: "CusparseLt \<Rightarrow> api_call \<Rightarrow> bool" where
  "issued_by obj c \<longleftrightarrow>
     \<not> is_prune c \<and> c \<noteq> cusparseLtInit \<and>
     (handle_of c = None \<or> handle_of c = Some (handle obj)) \<and>
     (scaling_of c = None \<or> scaling_of c = Some (alpha obj, beta obj)) \<and>
     (is_search c \<longrightarrow> alg_id obj = 7777)"

definition same_setup :: "CusparseLt \<Rightarrow> CusparseLt \<Rightarrow> bool" where
  "same_setup a b \<longleftrightarrow>
     sparse_compressed b = sparse_compressed a \<and> handle b = handle a \<and>
     alignment b = alignment a \<and> alpha b = alpha a \<and> beta b = beta a \<and>
     type b = type a \<and> compute_type b = compute_type a \<and>
     (alg_id a \<noteq> 7777 \<longrightarrow> alg_id b = alg_id a)"

text \<open>
  An action checks its statuses when every vendor call it makes but the last has
  succeeded, and a last call that has not succeeded makes the action raise the error
  that carries that status.
\<close>

definition checks_every_status :: "vendor \<Rightarrow> 'a action \<Rightarrow> bool" where
  "checks_every_status v f \<longleftrightarrow>
     (\<forall>s. \<exists>cs. calls (snd (f s)) = calls s @ cs \<and>
        (\<forall>i<length cs. status v (length (calls s) + i) \<noteq> 0 \<longrightarrow>
           Suc i = length cs \<and>
           (fst (f s) = Inl (CudaApiFailed (status v (length (calls s) + i))) \<or>
            fst (f s) = Inl (CusparseApiFailed (status v (length (calls s) + i))))))"

text \<open>The two output pointers (C and D) a search or a multiplication was given.\<close>

fun output_of :: "api_call \<Rightarrow> (ptr \<times> ptr) option" where
  "output_of (cusparseLtMatmulSearch _ _ _ _ _ c d _ _ _) = Some (c, d)"
| "output_of (cusparseLtMatmul _ _ _ _ _ c d _ _ _) = Some (c, d)"
| "output_of _ = None"

text \<open>
  What the log of one returning multiply call says about the tensor \<open>res\<close> it returned,
  for the dense input \<open>input\<close> and the bias pointer \<open>dBias\<close>, from the machine \<open>s\<close> to
  the machine \<open>s'\<close>: the tensor is on storage handed out during the call; the call made
  fourteen vendor calls, of which exactly one is a search or a multiplication; the bias
  pointer was set on the matmul descriptor; and that one kernel call was given
  \<open>alpha\<close> = 1, the sparse operand, the data pointer of the input, \<open>beta\<close> = 0 and,
  as both of its output pointers, the data pointer of the returned tensor. The kernel
  call is the search while \<open>alg_id\<close> is the sentinel and the multiplication afterwards.
\<close>

definition returns_kernel_output ::
  "Tensor \<Rightarrow> Tensor \<Rightarrow> ptr \<Rightarrow> machine \<Rightarrow> Tensor \<Rightarrow> machine \<Rightarrow> bool" where
  "returns_kernel_output wc input dBias s res s' \<longleftrightarrow>
     storages s < data_ptr res \<and> data_ptr res \<le> storages s' \<and>
     length (calls s') = length (calls s) + 14 \<and>
     take (length (calls s)) (calls s') = calls s \<and>
     length (filter (\<lambda>c. is_search c \<or> is_multiply c)
       (drop (length (calls s)) (calls s'))) = 1 \<and>
     calls s' ! (length (calls s) + 3) =
       cusparseLtMatmulDescSetAttribute (handle (self s)) CUSPARSELT_MATMUL_BIAS_POINTER
         (int dBias) \<and>
     (if alg_id (self s) = 7777
      then calls s' ! (length (calls s) + 9) =
        cusparseLtMatmulSearch (handle (self s)) 1 (data_ptr wc) (data_ptr input) 0
          (data_ptr res) (data_ptr res) (d_workspace (self s')) (streams (self s))
          (num_streams (self s))
      else calls s' ! (length (calls s) + 10) =
        cusparseLtMatmul (handle (self s)) 1 (data_ptr wc) (data_ptr input) 0
          (data_ptr res) (data_ptr res) (d_workspace (self s')) (streams (self s))
          (num_streams (self s)))"

subsection \<open>Names\<close>




subsection \<open>A concrete run\<close>

text \<open>
  A vendor whose calls all succeed on a device of compute capability 8.6, one on a device
  of compute capability 7.5, and one whose seventeenth call (index 16) fails; tensors for
  the weight, the dense input and the bias; and the machine before the object exists.
\<close>

definition vendor_86 :: vendor where
  "vendor_86 =
     \<lparr>status = (\<lambda>_. 0), out_int = (\<lambda>i. if i = 0 then 8 else if i = 1 then 6 else 3),
      out_size = (\<lambda>_. 256), out_size2 = (\<lambda>_. 64), out_ptr = (\<lambda>i. 1000 + i)\<rparr>"

definition vendor_75 :: vendor where
  "vendor_75 =
     \<lparr>status = (\<lambda>_. 0), out_int = (\<lambda>i. if i = 0 then 7 else if i = 1 then 5 else 3),
      out_size = (\<lambda>_. 256), out_size2 = (\<lambda>_. 64), out_ptr = (\<lambda>i. 1000 + i)\<rparr>"

definition vendor_failing :: vendor where
  "vendor_failing =
     \<lparr>status = (\<lambda>i. if i = 16 then 3 else 0),
      out_int = (\<lambda>i. if i = 0 then 8 else if i = 1 then 6 else 3),
      out_size = (\<lambda>_. 256), out_size2 = (\<lambda>_. 64), out_ptr = (\<lambda>i. 1000 + i)\<rparr>"

definition weight :: Tensor where
  "weight = \<lparr>sizes = [64, 32], dtype = kInt8, device = 0, is_contiguous = True,
             data_ptr = 100\<rparr>"

definition packed :: Tensor where
  "packed = \<lparr>sizes = [64, 18], dtype = kInt8, device = 0, is_contiguous = True,
             data_ptr = 200\<rparr>"

definition other :: Tensor where
  "other = \<lparr>sizes = [64, 18], dtype = kInt8, device = 0, is_contiguous = True,
            data_ptr = 300\<rparr>"

definition dense :: Tensor where
  "dense = \<lparr>sizes = [32, 8], dtype = kInt8, device = 0, is_contiguous = False,
            data_ptr = 400\<rparr>"

definition bias_vec :: Tensor where
  "bias_vec = \<lparr>sizes = [64], dtype = kInt8, device = 0, is_contiguous = True,
               data_ptr = 500\<rparr>"

definition boot :: machine where
  "boot =
     \<lparr>self = \<lparr>sparse_compressed = other, handle = handle_uninitialized, alignment = 0,
              alpha = 0, beta = 0, num_streams = 0, stream = 0, streams = 0,
              d_workspace = 0, alg_id = 0, num_A_rows = 5,
              pruning_algo = CUSPARSELT_PRUNE_SPMMA_TILE,
              opA = CUSPARSE_OPERATION_TRANSPOSE, type = CUDA_R_8I,
              compute_type = CUSPARSE_COMPUTE_32I\<rparr>,
      calls = [], stdout = [], storages = 5\<rparr>"

section \<open>Properties\<close>

subsection \<open>Running the actions\<close>

lemma andThen_done_with: "andThen (done_with x) g s = g x s"
  by (simp add: andThen_def done_with_def)

lemma andThen_member: "andThen (member f) g s = g (f (self s)) s"
  by (simp add: andThen_def member_def)

lemma andThen_assign: "andThen (assign f) g s = g () (s\<lparr>self := f (self s)\<rparr>)"
  by (simp add: andThen_def assign_def)

lemma andThen_printf:
  "andThen (printf fmt args) g s = g () (s\<lparr>stdout := stdout s @ [(fmt, args)]\<rparr>)"
  by (simp add: andThen_def printf_def)

lemma andThen_size_at:
  "andThen (size_at t d) g s =
     (if d < length (sizes t) then g (sizes t ! d) s else (Inl (IndexError d), s))"
  by (simp add: andThen_def size_at_def)

lemma andThen_new_empty:
  "andThen (new_empty t shape) g s =
     g \<lparr>sizes = shape, dtype = dtype t, device = device t, is_contiguous = True,
        data_ptr = Suc (storages s)\<rparr> (s\<lparr>storages := Suc (storages s)\<rparr>)"
  by (simp add: andThen_def new_empty_def)

lemma andThen_CHECK_CUSPARSE:
  "andThen (CHECK_CUSPARSE v func) g s =
     (if status v (length (calls s)) = 0
      then g (length (calls s)) (s\<lparr>calls := calls s @ [func (self s)]\<rparr>)
      else (Inl (CusparseApiFailed (status v (length (calls s)))),
            s\<lparr>calls := calls s @ [func (self s)]\<rparr>))"
  by (simp add: andThen_def CHECK_CUSPARSE_def CUSPARSE_STATUS_SUCCESS_def Let_def)

lemma andThen_CHECK_CUDA:
  "andThen (CHECK_CUDA v func) g s =
     (if status v (length (calls s)) = 0
      then g (length (calls s)) (s\<lparr>calls := calls s @ [func (self s)]\<rparr>)
      else (Inl (CudaApiFailed (status v (length (calls s)))),
            s\<lparr>calls := calls s @ [func (self s)]\<rparr>))"
  by (simp add: andThen_def CHECK_CUDA_def cudaSuccess_def Let_def)

lemma andThen_assoc: "andThen (andThen f g) h s = andThen f (\<lambda>x. andThen (g x) h) s"
  by (simp add: andThen_def split: prod.splits sum.splits)

lemma andThen_if:
  "andThen (if c then a else b) g s = (if c then andThen a g s else andThen b g s)"
  by simp

lemmas run_simps = andThen_done_with andThen_member andThen_assign andThen_printf
  andThen_size_at andThen_new_empty andThen_CHECK_CUSPARSE andThen_CHECK_CUDA
  andThen_assoc andThen_if done_with_def assign_def printf_def Let_def order_def

subsection \<open>What every method keeps and what it may log\<close>

lemma helper_step:
  "same_setup (self s) (self (snd (cusparselt_helper v wc input dBias biasStride s))) \<and>
   (\<exists>cs. calls (snd (cusparselt_helper v wc input dBias biasStride s)) = calls s @ cs \<and>
      (\<forall>c\<in>set cs. issued_by (self s) c))"
  unfolding cusparselt_helper_def
  by (simp add: run_simps same_setup_def issued_by_def)

lemma compress_step:
  "same_setup (self s) (self (snd (compress v t b s))) \<and>
   (\<exists>cs. calls (snd (compress v t b s)) = calls s @ cs \<and>
      (\<forall>c\<in>set cs. issued_by (self s) c))"
  unfolding compress_def
  by (simp add: run_simps same_setup_def issued_by_def)

lemma invoke_step:
  "same_setup (self s) (self (invoke v wc m s)) \<and>
   (\<exists>cs. calls (invoke v wc m s) = calls s @ cs \<and> (\<forall>c\<in>set cs. issued_by (self s) c))"
  by (cases m) (simp_all add: helper_step compress_step cusparselt_mm_def cusparselt_addmm_def)

lemma same_setup_trans: "same_setup a b \<Longrightarrow> same_setup b c \<Longrightarrow> same_setup a c"
  by (auto simp: same_setup_def)

lemma issued_by_mono: "same_setup a b \<Longrightarrow> issued_by b c \<Longrightarrow> issued_by a c"
  by (auto simp: same_setup_def issued_by_def)

lemma invoke_all_step:
  "same_setup (self s) (self (invoke_all v wc ms s)) \<and>
   (\<exists>cs. calls (invoke_all v wc ms s) = calls s @ cs \<and> (\<forall>c\<in>set cs. issued_by (self s) c))"
proof (induction ms arbitrary: s)
  case Nil
  show ?case by (simp add: same_setup_def)
next
  case (Cons m ms)
  let ?s1 = "invoke v wc m s"
  from invoke_step [of s v wc m] obtain cs1 where
    a: "same_setup (self s) (self ?s1)" and b: "calls ?s1 = calls s @ cs1"
    and c: "\<forall>c\<in>set cs1. issued_by (self s) c" by blast
  from Cons.IH [of ?s1] obtain cs2 where
    d: "same_setup (self ?s1) (self (invoke_all v wc ms ?s1))"
    and e: "calls (invoke_all v wc ms ?s1) = calls ?s1 @ cs2"
    and f: "\<forall>c\<in>set cs2. issued_by (self ?s1) c" by blast
  have "\<forall>c\<in>set (cs1 @ cs2). issued_by (self s) c"
    using c f a by (auto intro: issued_by_mono)
  moreover have "calls (invoke_all v wc (m # ms) s) = calls s @ (cs1 @ cs2)"
    using b e by simp
  moreover have "same_setup (self s) (self (invoke_all v wc (m # ms) s))"
    using a d by (auto intro: same_setup_trans)
  ultimately show ?case by blast
qed

subsection \<open>Status checks compose\<close>

lemma checks_done_with: "checks_every_status v (done_with x)"
  unfolding checks_every_status_def by (simp add: done_with_def)

lemma checks_member: "checks_every_status v (member f)"
  unfolding checks_every_status_def by (simp add: member_def)

lemma checks_assign: "checks_every_status v (assign f)"
  unfolding checks_every_status_def by (simp add: assign_def)

lemma checks_printf: "checks_every_status v (printf fmt args)"
  unfolding checks_every_status_def by (simp add: printf_def)

lemma checks_size_at: "checks_every_status v (size_at t d)"
  unfolding checks_every_status_def by (simp add: size_at_def)

lemma checks_new_empty: "checks_every_status v (new_empty t shape)"
  unfolding checks_every_status_def by (simp add: new_empty_def)

lemma checks_CHECK_CUDA: "checks_every_status v (CHECK_CUDA v func)"
  unfolding checks_every_status_def
  by (simp add: CHECK_CUDA_def cudaSuccess_def Let_def)

lemma checks_CHECK_CUSPARSE: "checks_every_status v (CHECK_CUSPARSE v func)"
  unfolding checks_every_status_def
  by (simp add: CHECK_CUSPARSE_def CUSPARSE_STATUS_SUCCESS_def Let_def)

lemma checks_andThen:
  assumes f: "checks_every_status v f" and g: "\<And>x. checks_every_status v (g x)"
  shows "checks_every_status v (andThen f g)"
  unfolding checks_every_status_def
proof
  fix s :: machine
  let ?n = "length (calls s)"
  from f obtain cs1 where
    c1: "calls (snd (f s)) = calls s @ cs1"
    and p1: "\<forall>i<length cs1. status v (?n + i) \<noteq> 0 \<longrightarrow>
           Suc i = length cs1 \<and>
           (fst (f s) = Inl (CudaApiFailed (status v (?n + i))) \<or>
            fst (f s) = Inl (CusparseApiFailed (status v (?n + i))))"
    unfolding checks_every_status_def by blast
  show "\<exists>cs. calls (snd (andThen f g s)) = calls s @ cs \<and>
        (\<forall>i<length cs. status v (?n + i) \<noteq> 0 \<longrightarrow>
           Suc i = length cs \<and>
           (fst (andThen f g s) = Inl (CudaApiFailed (status v (?n + i))) \<or>
            fst (andThen f g s) = Inl (CusparseApiFailed (status v (?n + i)))))"
  proof (cases "fst (f s)")
    case (Inl e)
    then have "andThen f g s = (Inl e, snd (f s))"
      by (cases "f s") (simp add: andThen_def)
    with c1 p1 Inl show ?thesis by auto
  next
    case (Inr x)
    then have run: "andThen f g s = g x (snd (f s))"
      by (cases "f s") (simp add: andThen_def)
    have ok1: "\<forall>i<length cs1. status v (?n + i) = 0"
      using p1 Inr by auto
    from g [of x] obtain cs2 where
      c2: "calls (snd (g x (snd (f s)))) = calls (snd (f s)) @ cs2"
      and p2: "\<forall>j<length cs2. status v (length (calls (snd (f s))) + j) \<noteq> 0 \<longrightarrow>
           Suc j = length cs2 \<and>
           (fst (g x (snd (f s))) = Inl (CudaApiFailed (status v (length (calls (snd (f s))) + j))) \<or>
            fst (g x (snd (f s))) = Inl (CusparseApiFailed (status v (length (calls (snd (f s))) + j))))"
      unfolding checks_every_status_def by blast
    have "calls (snd (andThen f g s)) = calls s @ (cs1 @ cs2)"
      using run c1 c2 by simp
    moreover have "\<forall>i<length (cs1 @ cs2). status v (?n + i) \<noteq> 0 \<longrightarrow>
           Suc i = length (cs1 @ cs2) \<and>
           (fst (andThen f g s) = Inl (CudaApiFailed (status v (?n + i))) \<or>
            fst (andThen f g s) = Inl (CusparseApiFailed (status v (?n + i))))"
    proof (intro allI impI)
      fix i assume i: "i < length (cs1 @ cs2)" and bad: "status v (?n + i) \<noteq> 0"
      from ok1 bad have "\<not> i < length cs1" by auto
      then obtain j where j: "i = length cs1 + j" "j < length cs2"
        using i by (metis add_diff_inverse_nat length_append nat_add_left_cancel_less)
      have idx: "length (calls (snd (f s))) + j = ?n + i"
        using c1 j by simp
      from p2 j(2) have "status v (length (calls (snd (f s))) + j) \<noteq> 0 \<longrightarrow>
           Suc j = length cs2 \<and>
           (fst (g x (snd (f s))) = Inl (CudaApiFailed (status v (length (calls (snd (f s))) + j))) \<or>
            fst (g x (snd (f s))) = Inl (CusparseApiFailed (status v (length (calls (snd (f s))) + j))))"
        by blast
      then have "Suc j = length cs2 \<and>
           (fst (g x (snd (f s))) = Inl (CudaApiFailed (status v (?n + i))) \<or>
            fst (g x (snd (f s))) = Inl (CusparseApiFailed (status v (?n + i))))"
        using bad unfolding idx by blast
      then show "Suc i = length (cs1 @ cs2) \<and>
           (fst (andThen f g s) = Inl (CudaApiFailed (status v (?n + i))) \<or>
            fst (andThen f g s) = Inl (CusparseApiFailed (status v (?n + i))))"
        using run j(1) by simp
    qed
    ultimately show ?thesis by blast
  qed
qed

lemma checks_if:
  "(c \<Longrightarrow> checks_every_status v a) \<Longrightarrow> (\<not> c \<Longrightarrow> checks_every_status v b) \<Longrightarrow>
   checks_every_status v (if c then a else b)"
  by simp

lemmas checks_rules = checks_andThen checks_done_with checks_member checks_assign
  checks_printf checks_size_at checks_new_empty checks_CHECK_CUDA checks_CHECK_CUSPARSE
  checks_if

lemma checks_compress: "checks_every_status v (compress v t b)"
  unfolding compress_def Let_def by (intro checks_rules)

lemma checks_helper: "checks_every_status v (cusparselt_helper v wc input dBias biasStride)"
  unfolding cusparselt_helper_def Let_def by (intro checks_rules)

lemma checks_body: "checks_every_status v (CusparseLt_body v)"
  unfolding CusparseLt_body_def Let_def by (intro checks_rules)

lemma checks_new: "checks_every_status v (CusparseLt_new v t)"
  unfolding checks_every_status_def
proof
  fix s :: machine
  let ?s = "s\<lparr>self := member_init t (self s)\<rparr>"
  have "calls ?s = calls s" by simp
  with checks_body [of v, unfolded checks_every_status_def, THEN spec, of ?s]
  show "\<exists>cs. calls (snd (CusparseLt_new v t s)) = calls s @ cs \<and>
        (\<forall>i<length cs. status v (length (calls s) + i) \<noteq> 0 \<longrightarrow>
           Suc i = length cs \<and>
           (fst (CusparseLt_new v t s) = Inl (CudaApiFailed (status v (length (calls s) + i))) \<or>
            fst (CusparseLt_new v t s) = Inl (CusparseApiFailed (status v (length (calls s) + i)))))"
    by (simp add: CusparseLt_new_def)
qed

subsection \<open>The constructor's paths\<close>

lemma new_members:
  "alignment (self (snd (CusparseLt_new v t s0))) = 16 \<and>
   alpha (self (snd (CusparseLt_new v t s0))) = 1 \<and>
   beta (self (snd (CusparseLt_new v t s0))) = 0 \<and>
   sparse_compressed (self (snd (CusparseLt_new v t s0))) = t"
  unfolding CusparseLt_new_def CusparseLt_body_def
  by (simp add: run_simps member_init_def)

lemma new_log:
  "\<exists>cs. calls (snd (CusparseLt_new v t s0)) = calls s0 @ cs \<and>
     (\<forall>c\<in>set cs. \<not> runs_kernel c \<and> scaling_of c = None \<and> handle_of c = None)"
  unfolding CusparseLt_new_def CusparseLt_body_def
  by (simp add: run_simps member_init_def runs_kernel_def)

lemma new_sentinel:
  "alg_id (self (snd (CusparseLt_new v t s0))) = 7777"
  unfolding CusparseLt_new_def CusparseLt_body_def
  by (simp add: run_simps member_init_def)

lemma new_supported:
  assumes "status v (length (calls s0)) = 0"
      and "status v (Suc (length (calls s0))) = 0"
      and "status v (Suc (Suc (length (calls s0)))) = 0"
      and "out_int v (length (calls s0)) = 8"
      and "out_int v (Suc (length (calls s0))) \<in> {0, 6, 9}"
  shows "fst (CusparseLt_new v t s0) = Inr () \<and>
     handle (self (snd (CusparseLt_new v t s0))) = handle_initialized \<and>
     type (self (snd (CusparseLt_new v t s0))) =
       (if dtype t = kInt8 then CUDA_R_8I
        else if dtype t = bFloat16 then CUDA_R_B16F else CUDA_R_16F) \<and>
     compute_type (self (snd (CusparseLt_new v t s0))) =
       (if dtype t = kInt8 then CUSPARSE_COMPUTE_32I
        else if dtype t = bFloat16 then CUSPARSE_COMPUTE_32I else CUSPARSE_COMPUTE_16F)"
  using assms unfolding CusparseLt_new_def CusparseLt_body_def
  by (auto simp add: run_simps member_init_def)

lemma new_unsupported:
  assumes "status v (length (calls s0)) = 0"
      and "status v (Suc (length (calls s0))) = 0"
      and "\<not> (out_int v (length (calls s0)) = 8 \<and> out_int v (Suc (length (calls s0))) \<in> {0, 6, 9})"
  shows "CusparseLt_new v t s0 =
     (Inr (), s0\<lparr>self := member_init t (self s0),
        calls := calls s0 @ [cudaDeviceGetAttribute cudaDevAttrComputeCapabilityMajor 0,
                             cudaDeviceGetAttribute cudaDevAttrComputeCapabilityMinor 0],
        stdout := stdout s0 @ [(unsupported_message,
           [out_int v (length (calls s0)), out_int v (Suc (length (calls s0)))])]\<rparr>)"
  using assms unfolding CusparseLt_new_def CusparseLt_body_def
  by (auto simp add: run_simps member_init_def)

subsection \<open>The calls of compress and of the multiply helper\<close>

lemma two_dims: "2 \<le> length xs \<Longrightarrow> xs \<noteq> [] \<and> Suc 0 < length xs"
  by (cases xs) auto

lemma compress_first_call:
  assumes "2 \<le> length (sizes t)"
  shows "(\<exists>rest. calls (snd (compress v t b s)) =
       calls s @ cusparseLtStructuredDescriptorInit (handle (self s)) sparse_input_descriptor
         (if b then sizes t ! 1 else sizes t ! 0) (if b then sizes t ! 0 else sizes t ! 1)
         (if b then sizes t ! 0 else sizes t ! 1) (alignment (self s)) (type (self s))
         CUSPARSE_ORDER_ROW CUSPARSELT_SPARSITY_50_PERCENT # rest) \<and>
     num_A_rows (self (snd (compress v t b s))) = (if b then sizes t ! 1 else sizes t ! 0)"
  using assms two_dims [of "sizes t"] unfolding compress_def
  by (simp add: run_simps)

lemma compress_all_calls:
  assumes "2 \<le> length (sizes t)"
      and "status v (length (calls s)) = 0"
      and "status v (Suc (length (calls s))) = 0"
      and "status v (Suc (Suc (length (calls s)))) = 0"
  shows "calls (snd (compress v t b s)) =
       calls s @ [cusparseLtStructuredDescriptorInit (handle (self s)) sparse_input_descriptor
         (if b then sizes t ! 1 else sizes t ! 0) (if b then sizes t ! 0 else sizes t ! 1)
         (if b then sizes t ! 0 else sizes t ! 1) (alignment (self s)) (type (self s))
         CUSPARSE_ORDER_ROW CUSPARSELT_SPARSITY_50_PERCENT,
        cusparseLtSpMMACompressedSize2 (handle (self s)) sparse_input_descriptor,
        cudaMalloc (out_size2 v (Suc (length (calls s)))),
        cusparseLtSpMMACompress2 (handle (self s)) sparse_input_descriptor True
          (if b then CUSPARSE_OPERATION_TRANSPOSE else CUSPARSE_OPERATION_NON_TRANSPOSE)
          (data_ptr t) (data_ptr (sparse_compressed (self s)))
          (out_ptr v (Suc (Suc (length (calls s))))) (stream (self s))]"
  using assms two_dims [of "sizes t"] unfolding compress_def
  by (simp add: run_simps)

lemma helper_first_calls:
  assumes "2 \<le> length (sizes input)"
  shows "(\<exists>rest. calls (snd (cusparselt_helper v wc input dBias biasStride s)) =
       calls s @ cusparseLtDenseDescriptorInit (handle (self s)) dense_input_descriptor
         (if is_contiguous input then sizes input ! 0 else sizes input ! 1)
         (if is_contiguous input then sizes input ! 1 else sizes input ! 0)
         (if is_contiguous input then sizes input ! 1 else sizes input ! 0)
         (alignment (self s)) (type (self s)) CUSPARSE_ORDER_ROW # rest) \<and>
     (status v (length (calls s)) = 0 \<and> status v (Suc (length (calls s))) = 0 \<longrightarrow>
       (\<exists>rest. calls (snd (cusparselt_helper v wc input dBias biasStride s)) =
       calls s @ [cusparseLtDenseDescriptorInit (handle (self s)) dense_input_descriptor
         (if is_contiguous input then sizes input ! 0 else sizes input ! 1)
         (if is_contiguous input then sizes input ! 1 else sizes input ! 0)
         (if is_contiguous input then sizes input ! 1 else sizes input ! 0)
         (alignment (self s)) (type (self s)) CUSPARSE_ORDER_ROW,
        cusparseLtDenseDescriptorInit (handle (self s)) res_descriptor
         (num_A_rows (self s)) (sizes input ! 1) (sizes input ! 1)
         (alignment (self s)) (type (self s)) CUSPARSE_ORDER_ROW,
        cusparseLtMatmulDescriptorInit (handle (self s)) (opA (self s))
         (if is_contiguous input then CUSPARSE_OPERATION_NON_TRANSPOSE
          else CUSPARSE_OPERATION_TRANSPOSE)
         sparse_input_descriptor dense_input_descriptor res_descriptor res_descriptor
         (compute_type (self s))] @ rest))"
  using assms two_dims [of "sizes input"] unfolding cusparselt_helper_def
  by (simp add: run_simps)

lemma helper_result:
  assumes "cusparselt_helper v wc input dBias biasStride s = (Inr res, s')"
  shows "sizes res = [num_A_rows (self s), sizes input ! 1] \<and> dtype res = dtype input \<and>
     device res = device input \<and> data_ptr res = Suc (storages s) \<and>
     storages s' = Suc (storages s)"
  using assms unfolding cusparselt_helper_def
  by (auto simp add: run_simps split: if_splits)

lemma helper_returns:
  assumes "2 \<le> length (sizes input)"
      and "\<forall>i<14. status v (length (calls s) + i) = 0"
  shows "\<exists>res s'. cusparselt_helper v wc input dBias biasStride s = (Inr res, s')"
proof -
  let ?n = "length (calls s)"
  have "status v ?n = 0" using assms(2) [rule_format, of 0] by simp
  moreover have "status v (Suc ?n) = 0" using assms(2) [rule_format, of 1] by simp
  moreover have "status v (Suc (Suc ?n)) = 0" using assms(2) [rule_format, of 2] by simp
  moreover have "status v (Suc (Suc (Suc ?n))) = 0"
    using assms(2) [rule_format, of 3] by (simp add: numeral_3_eq_3)
  moreover have "status v (Suc (Suc (Suc (Suc ?n)))) = 0"
    using assms(2) [rule_format, of 4] by (simp add: eval_nat_numeral)
  moreover have "status v (Suc (Suc (Suc (Suc (Suc ?n))))) = 0"
    using assms(2) [rule_format, of 5] by (simp add: eval_nat_numeral)
  moreover have "status v (Suc (Suc (Suc (Suc (Suc (Suc ?n)))))) = 0"
    using assms(2) [rule_format, of 6] by (simp add: eval_nat_numeral)
  moreover have "status v (Suc (Suc (Suc (Suc (Suc (Suc (Suc ?n))))))) = 0"
    using assms(2) [rule_format, of 7] by (simp add: eval_nat_numeral)
  moreover have "status v (Suc (Suc (Suc (Suc (Suc (Suc (Suc (Suc ?n)))))))) = 0"
    using assms(2) [rule_format, of 8] by (simp add: eval_nat_numeral)
  moreover have "status v (Suc (Suc (Suc (Suc (Suc (Suc (Suc (Suc (Suc ?n))))))))) = 0"
    using assms(2) [rule_format, of 9] by (simp add: eval_nat_numeral)
  moreover have "status v (Suc (Suc (Suc (Suc (Suc (Suc (Suc (Suc (Suc (Suc ?n)))))))))) = 0"
    using assms(2) [rule_format, of 10] by (simp add: eval_nat_numeral)
  moreover have "status v (Suc (Suc (Suc (Suc (Suc (Suc (Suc (Suc (Suc (Suc (Suc ?n))))))))))) = 0"
    using assms(2) [rule_format, of 11] by (simp add: eval_nat_numeral)
  moreover have "status v (Suc (Suc (Suc (Suc (Suc (Suc (Suc (Suc (Suc (Suc (Suc (Suc ?n)))))))))))) = 0"
    using assms(2) [rule_format, of 12] by (simp add: eval_nat_numeral)
  moreover have "status v (Suc (Suc (Suc (Suc (Suc (Suc (Suc (Suc (Suc (Suc (Suc (Suc (Suc ?n))))))))))))) = 0"
    using assms(2) [rule_format, of 13] by (simp add: eval_nat_numeral)
  ultimately show ?thesis
    using two_dims [OF assms(1)] unfolding cusparselt_helper_def
    by (simp add: run_simps)
qed

lemma eleven_statuses:
  assumes "\<forall>i<11. status v (n + i) = 0"
  shows "status v n = 0" "status v (Suc n) = 0" "status v (Suc (Suc n)) = 0"
    "status v (Suc (Suc (Suc n))) = 0" "status v (Suc (Suc (Suc (Suc n)))) = 0"
    "status v (Suc (Suc (Suc (Suc (Suc n))))) = 0"
    "status v (Suc (Suc (Suc (Suc (Suc (Suc n)))))) = 0"
    "status v (Suc (Suc (Suc (Suc (Suc (Suc (Suc n))))))) = 0"
    "status v (Suc (Suc (Suc (Suc (Suc (Suc (Suc (Suc n)))))))) = 0"
    "status v (Suc (Suc (Suc (Suc (Suc (Suc (Suc (Suc (Suc n))))))))) = 0"
    "status v (Suc (Suc (Suc (Suc (Suc (Suc (Suc (Suc (Suc (Suc n)))))))))) = 0"
  using assms [rule_format, of 0] assms [rule_format, of 1] assms [rule_format, of 2]
    assms [rule_format, of 3] assms [rule_format, of 4] assms [rule_format, of 5]
    assms [rule_format, of 6] assms [rule_format, of 7] assms [rule_format, of 8]
    assms [rule_format, of 9] assms [rule_format, of 10]
  by (simp_all add: eval_nat_numeral)

lemma helper_search_path:
  assumes "2 \<le> length (sizes input)"
      and "\<forall>i<11. status v (length (calls s) + i) = 0"
      and "alg_id (self s) = 7777"
      and "s' = snd (cusparselt_helper v wc input dBias biasStride s)"
  shows "calls s' ! (length (calls s) + 9) =
       cusparseLtMatmulSearch (handle (self s)) (alpha (self s)) (data_ptr wc)
         (data_ptr input) (beta (self s)) (Suc (storages s)) (Suc (storages s))
         (out_ptr v (length (calls s) + 8)) (streams (self s)) (num_streams (self s)) \<and>
     calls s' ! (length (calls s) + 10) =
       cusparseLtMatmulAlgGetAttribute (handle (self s)) CUSPARSELT_MATMUL_ALG_CONFIG_ID \<and>
     alg_id (self s') = out_int v (length (calls s) + 10) \<and>
     filter is_multiply (drop (length (calls s)) (calls s')) = [] \<and>
     length (filter is_search (drop (length (calls s)) (calls s'))) = 1"
  using two_dims [OF assms(1)] eleven_statuses [OF assms(2)] assms(3)
  unfolding assms(4) cusparselt_helper_def
  by (simp add: run_simps eval_nat_numeral nth_append)

lemma helper_cached_path:
  assumes "2 \<le> length (sizes input)"
      and "\<forall>i<11. status v (length (calls s) + i) = 0"
      and "alg_id (self s) \<noteq> 7777"
      and "s' = snd (cusparselt_helper v wc input dBias biasStride s)"
  shows "calls s' ! (length (calls s) + 9) =
       cusparseLtMatmulAlgSetAttribute (handle (self s)) CUSPARSELT_MATMUL_ALG_CONFIG_ID
         (alg_id (self s)) \<and>
     calls s' ! (length (calls s) + 10) =
       cusparseLtMatmul (handle (self s)) (alpha (self s)) (data_ptr wc)
         (data_ptr input) (beta (self s)) (Suc (storages s)) (Suc (storages s))
         (out_ptr v (length (calls s) + 8)) (streams (self s)) (num_streams (self s)) \<and>
     alg_id (self s') = alg_id (self s) \<and>
     filter is_search (drop (length (calls s)) (calls s')) = []"
  using two_dims [OF assms(1)] eleven_statuses [OF assms(2)] assms(3)
  unfolding assms(4) cusparselt_helper_def
  by (simp add: run_simps eval_nat_numeral nth_append)

text \<open>A multiply call that returns has returned the output buffer of its one kernel call.\<close>

lemma helper_returned_kernel:
  assumes "cusparselt_helper v wc input dBias biasStride s = (Inr res, s')"
      and "alpha (self s) = 1" and "beta (self s) = 0"
  shows "returns_kernel_output wc input dBias s res s'"
  using assms unfolding cusparselt_helper_def returns_kernel_output_def
  by (auto simp add: run_simps nth_append split: if_splits)

subsection \<open>Unfolding a concrete run\<close>

lemmas method_defs = CusparseLt_new_def CusparseLt_body_def compress_def
  cusparselt_mm_def cusparselt_addmm_def cusparselt_helper_def member_init_def

lemmas example_defs = vendor_86_def vendor_75_def vendor_failing_def weight_def packed_def
  other_def dense_def bias_vec_def boot_def nullptr_def

section \<open>The claims\<close>


text \<open>
  C2: for every call to \<open>compress\<close> on a constructed object, with a sparse input of
  shape m x k and transpose flag t, the first vendor call initialises the structured
  descriptor with (t ? k : m) rows, (t ? m : k) columns, the column count as leading
  dimension, alignment 16, row-major order and 50 percent sparsity, and \<open>num_A_rows\<close> is
  stored as (t ? k : m).
\<close>

theorem C2_structured_descriptor:
  assumes "CusparseLt_new v t s0 = (Inr (), s1)"
      and "s = invoke_all v wc ms s1"
      and "sizes sparse_input = [m, k]"
  shows "(\<exists>rest. calls (snd (compress v sparse_input tr s)) =
       calls s @ cusparseLtStructuredDescriptorInit (handle (self s)) sparse_input_descriptor
         (if tr then k else m) (if tr then m else k) (if tr then m else k) 16
         (type (self s)) CUSPARSE_ORDER_ROW CUSPARSELT_SPARSITY_50_PERCENT # rest) \<and>
     num_A_rows (self (snd (compress v sparse_input tr s))) = (if tr then k else m)"
proof -
  have "alignment (self s1) = 16"
    using new_members [of v t s0] assms(1) by simp
  moreover have "same_setup (self s1) (self s)"
    using invoke_all_step [of s1 v wc ms] assms(2) by simp
  ultimately have a: "alignment (self s) = 16"
    by (simp add: same_setup_def)
  have d: "2 \<le> length (sizes sparse_input)" "sizes sparse_input ! 0 = m"
    "sizes sparse_input ! 1 = k"
    using assms(3) by simp_all
  show ?thesis
    using compress_first_call [OF d(1), of v tr s] unfolding d(2,3) a by simp
qed

text \<open>
  C2 on the object built on the 8.6 device, compressing a 64 x 32 weight.
\<close>

theorem C2_structured_descriptor_witness:
  "CusparseLt_new vendor_86 packed boot = (Inr (), snd (CusparseLt_new vendor_86 packed boot)) \<and>
   sizes weight = [64, 32] \<and>
   (\<exists>rest. calls (snd (compress vendor_86 weight False (snd (CusparseLt_new vendor_86 packed boot)))) =
       calls (snd (CusparseLt_new vendor_86 packed boot)) @
       cusparseLtStructuredDescriptorInit handle_initialized sparse_input_descriptor
         64 32 32 16 CUDA_R_8I CUSPARSE_ORDER_ROW CUSPARSELT_SPARSITY_50_PERCENT # rest) \<and>
   num_A_rows (self (snd (compress vendor_86 weight False (snd (CusparseLt_new vendor_86 packed boot))))) = 64"
proof -
  let ?s1 = "snd (CusparseLt_new vendor_86 packed boot)"
  have h: "status vendor_86 (length (calls boot)) = 0"
    "status vendor_86 (Suc (length (calls boot))) = 0"
    "status vendor_86 (Suc (Suc (length (calls boot)))) = 0"
    "out_int vendor_86 (length (calls boot)) = 8"
    "out_int vendor_86 (Suc (length (calls boot))) \<in> {0, 6, 9}"
    by (simp_all add: vendor_86_def boot_def)
  have p: "dtype packed = kInt8" by (simp add: packed_def)
  have n: "fst (CusparseLt_new vendor_86 packed boot) = Inr ()"
    "handle (self ?s1) = handle_initialized" "type (self ?s1) = CUDA_R_8I"
    using new_supported [OF h, of packed] p by simp_all
  have a: "CusparseLt_new vendor_86 packed boot = (Inr (), ?s1)"
    using n(1) by (cases "CusparseLt_new vendor_86 packed boot") simp
  have b: "?s1 = invoke_all vendor_86 packed [] ?s1" by simp
  have c: "sizes weight = [64, 32]" by (simp add: weight_def)
  show ?thesis
    using C2_structured_descriptor [OF a b c, of False] a c n(2,3) by simp
qed

text \<open>
  C3: for a dense input of shape k x n, whatever \<open>cusparselt_mm\<close> or
  \<open>cusparselt_addmm\<close> returns is a tensor of shape \<open>num_A_rows\<close> x n with the dtype and
  the device of the input, on storage the allocator had not handed out before; and they
  do return one when the fourteen vendor calls of the call succeed.
\<close>

theorem C3_result_tensor:
  assumes "sizes input = [k, n]"
  shows "(\<forall>res s'. cusparselt_mm v wc input s = (Inr res, s') \<longrightarrow>
        sizes res = [num_A_rows (self s), n] \<and> dtype res = dtype input \<and>
        device res = device input \<and>
        data_ptr res = Suc (storages s) \<and> storages s' = Suc (storages s)) \<and>
     (\<forall>res s'. cusparselt_addmm v wc input bias s = (Inr res, s') \<longrightarrow>
        sizes res = [num_A_rows (self s), n] \<and> dtype res = dtype input \<and>
        device res = device input \<and>
        data_ptr res = Suc (storages s) \<and> storages s' = Suc (storages s)) \<and>
     ((\<forall>i<14. status v (length (calls s) + i) = 0) \<longrightarrow>
        (\<exists>res s'. cusparselt_mm v wc input s = (Inr res, s')) \<and>
        (\<exists>res s'. cusparselt_addmm v wc input bias s = (Inr res, s')))"
proof -
  have d: "2 \<le> length (sizes input)" "sizes input ! 1 = n"
    using assms by simp_all
  show ?thesis
    unfolding cusparselt_mm_def cusparselt_addmm_def
    using helper_result [of v wc input _ 0 s] helper_returns [OF d(1), of v s wc _ 0]
    unfolding d(2) by blast
qed

text \<open>
  C3 on a 32 x 8 input with a vendor whose calls all succeed.
\<close>

theorem C3_result_tensor_witness:
  "sizes dense = [32, 8] \<and>
   (\<exists>res s'. cusparselt_mm vendor_86 packed dense boot = (Inr res, s') \<and>
      sizes res = [5, 8] \<and> dtype res = kInt8 \<and> device res = 0 \<and> data_ptr res = 6)"
proof -
  have a: "sizes dense = [32, 8]" by (simp add: dense_def)
  have b: "\<forall>i<14. status vendor_86 (length (calls boot) + i) = 0"
    by (simp add: vendor_86_def)
  have c: "num_A_rows (self boot) = 5" "storages boot = 5" "dtype dense = kInt8"
    "device dense = 0"
    by (simp_all add: boot_def dense_def)
  note T = C3_result_tensor [OF a, of vendor_86 packed boot bias_vec]
  from T b obtain res s' where r: "cusparselt_mm vendor_86 packed dense boot = (Inr res, s')"
    by blast
  with T have "sizes res = [num_A_rows (self boot), 8] \<and> dtype res = dtype dense \<and>
      device res = device dense \<and> data_ptr res = Suc (storages boot)"
    by blast
  with c have "sizes res = [5, 8] \<and> dtype res = kInt8 \<and> device res = 0 \<and> data_ptr res = 6"
    by simp
  with r a show ?thesis by blast
qed

text \<open>
  C4, as stated, on a device the constructor does not support: the tensor is \<open>kInt8\<close>,
  construction succeeds, and the type pair is still the default one.
\<close>

theorem C4_counterexample:
  "dtype packed = kInt8 \<and> fst (CusparseLt_new vendor_75 packed boot) = Inr () \<and>
   type (self (snd (CusparseLt_new vendor_75 packed boot))) = CUDA_R_16F \<and>
   compute_type (self (snd (CusparseLt_new vendor_75 packed boot))) = CUSPARSE_COMPUTE_16F"
  unfolding CusparseLt_new_def CusparseLt_body_def
  by (simp add: run_simps member_init_def vendor_75_def packed_def boot_def)

text \<open>
  C4 (amended): when the compute capability is 8.0, 8.6 or 8.9 and the constructor's three
  vendor calls succeed, the constructor returns an object whose type pair is the
  translation of the dtype of the tensor it was given: \<open>kInt8\<close> gives \<open>CUDA_R_8I\<close> with
  \<open>CUSPARSE_COMPUTE_32I\<close>, \<open>bFloat16\<close> gives \<open>CUDA_R_B16F\<close> with
  \<open>CUSPARSE_COMPUTE_32I\<close>, any other dtype keeps \<open>CUDA_R_16F\<close> with
  \<open>CUSPARSE_COMPUTE_16F\<close>.
\<close>

theorem C4_dtype_translation:
  assumes "status v (length (calls s0)) = 0"
      and "status v (Suc (length (calls s0))) = 0"
      and "status v (Suc (Suc (length (calls s0)))) = 0"
      and "out_int v (length (calls s0)) = 8"
      and "out_int v (Suc (length (calls s0))) \<in> {0, 6, 9}"
  shows "\<exists>s1. CusparseLt_new v t s0 = (Inr (), s1) \<and>
     (type (self s1), compute_type (self s1)) =
       (if dtype t = kInt8 then (CUDA_R_8I, CUSPARSE_COMPUTE_32I)
        else if dtype t = bFloat16 then (CUDA_R_B16F, CUSPARSE_COMPUTE_32I)
        else (CUDA_R_16F, CUSPARSE_COMPUTE_16F))"
proof -
  obtain r s1 where run: "CusparseLt_new v t s0 = (r, s1)"
    by (cases "CusparseLt_new v t s0")
  with new_supported [OF assms, of t] have "r = Inr ()"
    and "type (self s1) =
       (if dtype t = kInt8 then CUDA_R_8I
        else if dtype t = bFloat16 then CUDA_R_B16F else CUDA_R_16F)"
    and "compute_type (self s1) =
       (if dtype t = kInt8 then CUSPARSE_COMPUTE_32I
        else if dtype t = bFloat16 then CUSPARSE_COMPUTE_32I else CUSPARSE_COMPUTE_16F)"
    by simp_all
  with run show ?thesis by simp
qed

text \<open>
  C4 (amended) on the 8.6 device with a \<open>kInt8\<close> tensor.
\<close>

theorem C4_dtype_translation_witness:
  "status vendor_86 (length (calls boot)) = 0 \<and>
   status vendor_86 (Suc (length (calls boot))) = 0 \<and>
   status vendor_86 (Suc (Suc (length (calls boot)))) = 0 \<and>
   out_int vendor_86 (length (calls boot)) = 8 \<and>
   out_int vendor_86 (Suc (length (calls boot))) \<in> {0, 6, 9} \<and>
   (\<exists>s1. CusparseLt_new vendor_86 packed boot = (Inr (), s1) \<and>
      (type (self s1), compute_type (self s1)) = (CUDA_R_8I, CUSPARSE_COMPUTE_32I))"
proof -
  have h: "status vendor_86 (length (calls boot)) = 0"
    "status vendor_86 (Suc (length (calls boot))) = 0"
    "status vendor_86 (Suc (Suc (length (calls boot)))) = 0"
    "out_int vendor_86 (length (calls boot)) = 8"
    "out_int vendor_86 (Suc (length (calls boot))) \<in> {0, 6, 9}"
    by (simp_all add: vendor_86_def boot_def)
  have "dtype packed = kInt8" by (simp add: packed_def)
  with C4_dtype_translation [OF h, of packed] h show ?thesis by simp
qed

text \<open>
  C5, as stated, on a vendor whose first search (call 16) fails: the multiply call raises,
  \<open>alg_id\<close> is still the sentinel, and the next multiply call runs the search again. The
  log of this one object holds two searches.
\<close>

theorem C5_counterexample:
  "length (filter is_search (calls (invoke_all vendor_failing packed
       [call_compress weight False, call_cusparselt_mm dense, call_cusparselt_mm dense]
       (snd (CusparseLt_new vendor_failing packed boot))))) = 2"
  by (simp add: method_defs run_simps example_defs)

text \<open>
  C5 (amended): a multiply call whose first eleven vendor calls succeed runs
  \<open>cusparseLtMatmulSearch\<close> as its tenth call when \<open>alg_id\<close> is the sentinel 7777 at
  entry, reads the selected config id into \<open>alg_id\<close> with its eleventh, and runs no
  \<open>cusparseLtMatmul\<close>; when \<open>alg_id\<close> is not the sentinel, its tenth call sets the
  cached \<open>alg_id\<close> on the algorithm selection and its eleventh is \<open>cusparseLtMatmul\<close>.
  Once \<open>alg_id\<close> differs from 7777, no method changes it and no later call of any
  method runs the search.
\<close>

theorem C5_search_until_cached:
  "(2 \<le> length (sizes input) \<and> (\<forall>i<11. status v (length (calls s) + i) = 0) \<and>
    alg_id (self s) = 7777 \<longrightarrow>
      calls (snd (cusparselt_helper v wc input dBias biasStride s)) ! (length (calls s) + 9) =
        cusparseLtMatmulSearch (handle (self s)) (alpha (self s)) (data_ptr wc)
          (data_ptr input) (beta (self s)) (Suc (storages s)) (Suc (storages s))
          (out_ptr v (length (calls s) + 8)) (streams (self s)) (num_streams (self s)) \<and>
      calls (snd (cusparselt_helper v wc input dBias biasStride s)) ! (length (calls s) + 10) =
        cusparseLtMatmulAlgGetAttribute (handle (self s)) CUSPARSELT_MATMUL_ALG_CONFIG_ID \<and>
      alg_id (self (snd (cusparselt_helper v wc input dBias biasStride s))) =
        out_int v (length (calls s) + 10) \<and>
      filter is_multiply (drop (length (calls s))
        (calls (snd (cusparselt_helper v wc input dBias biasStride s)))) = [] \<and>
      length (filter is_search (drop (length (calls s))
        (calls (snd (cusparselt_helper v wc input dBias biasStride s))))) = 1) \<and>
   (2 \<le> length (sizes input) \<and> (\<forall>i<11. status v (length (calls s) + i) = 0) \<and>
    alg_id (self s) \<noteq> 7777 \<longrightarrow>
      calls (snd (cusparselt_helper v wc input dBias biasStride s)) ! (length (calls s) + 9) =
        cusparseLtMatmulAlgSetAttribute (handle (self s)) CUSPARSELT_MATMUL_ALG_CONFIG_ID
          (alg_id (self s)) \<and>
      calls (snd (cusparselt_helper v wc input dBias biasStride s)) ! (length (calls s) + 10) =
        cusparseLtMatmul (handle (self s)) (alpha (self s)) (data_ptr wc)
          (data_ptr input) (beta (self s)) (Suc (storages s)) (Suc (storages s))
          (out_ptr v (length (calls s) + 8)) (streams (self s)) (num_streams (self s))) \<and>
   (alg_id (self s) \<noteq> 7777 \<longrightarrow>
      (\<forall>ms. alg_id (self (invoke_all v wc ms s)) = alg_id (self s) \<and>
         (\<exists>cs. calls (invoke_all v wc ms s) = calls s @ cs \<and>
            (\<forall>c\<in>set cs. \<not> is_search c))))"
proof (intro conjI impI allI)
  assume a: "alg_id (self s) \<noteq> 7777"
  fix ms
  from invoke_all_step [of s v wc ms] obtain cs where
    b: "same_setup (self s) (self (invoke_all v wc ms s))"
    and c: "calls (invoke_all v wc ms s) = calls s @ cs"
    and d: "\<forall>c\<in>set cs. issued_by (self s) c" by blast
  show "alg_id (self (invoke_all v wc ms s)) = alg_id (self s)"
    using a b by (simp add: same_setup_def)
  have "\<forall>c\<in>set cs. \<not> is_search c"
    using a d by (auto simp: issued_by_def)
  with c show "\<exists>cs. calls (invoke_all v wc ms s) = calls s @ cs \<and>
      (\<forall>c\<in>set cs. \<not> is_search c)"
    by blast
qed (use helper_search_path [of input v s _ wc dBias biasStride, OF _ _ _ refl]
       helper_cached_path [of input v s _ wc dBias biasStride, OF _ _ _ refl] in blast)+

text \<open>
  C5 (amended) on the 8.6 device: the first multiply call searches (call 12) and caches
  config id 3, the second multiplies (call 27), and two further calls add no search.
\<close>

theorem C5_search_until_cached_witness:
  "2 \<le> length (sizes dense) \<and>
   alg_id (self (snd (CusparseLt_new vendor_86 packed boot))) = 7777 \<and>
   is_search (calls (snd (cusparselt_helper vendor_86 packed dense 0 0
      (snd (CusparseLt_new vendor_86 packed boot)))) ! 12) \<and>
   alg_id (self (snd (cusparselt_helper vendor_86 packed dense 0 0
      (snd (CusparseLt_new vendor_86 packed boot))))) = 3 \<and>
   is_multiply (calls (snd (cusparselt_helper vendor_86 packed dense 0 0
      (snd (cusparselt_helper vendor_86 packed dense 0 0
        (snd (CusparseLt_new vendor_86 packed boot)))))) ! 27) \<and>
   filter is_search (drop 17 (calls (invoke_all vendor_86 packed
        [call_cusparselt_mm dense, call_cusparselt_addmm dense bias_vec]
        (snd (cusparselt_helper vendor_86 packed dense 0 0
          (snd (CusparseLt_new vendor_86 packed boot))))))) = []"
proof -
  let ?b = "snd (CusparseLt_new vendor_86 packed boot)"
  let ?s = "snd (cusparselt_helper vendor_86 packed dense 0 0 ?b)"
  let ?t = "snd (cusparselt_helper vendor_86 packed dense 0 0 ?s)"
  let ?ms = "[call_cusparselt_mm dense, call_cusparselt_addmm dense bias_vec]"
  have d: "2 \<le> length (sizes dense)" by (simp add: dense_def)
  have ok: "\<forall>i<11. status vendor_86 (n + i) = 0" for n
    by (simp add: vendor_86_def)
  have id: "alg_id (self ?b) = 7777" by (rule new_sentinel)
  have lb: "length (calls ?b) = 3"
    by (simp add: method_defs run_simps example_defs)
  note T1 = C5_search_until_cached [of dense vendor_86 ?b packed 0 0]
  from T1 d ok id have
    s1: "calls ?s ! (length (calls ?b) + 9) =
        cusparseLtMatmulSearch (handle (self ?b)) (alpha (self ?b)) (data_ptr packed)
          (data_ptr dense) (beta (self ?b)) (Suc (storages ?b)) (Suc (storages ?b))
          (out_ptr vendor_86 (length (calls ?b) + 8)) (streams (self ?b)) (num_streams (self ?b))"
    and s2: "alg_id (self ?s) = out_int vendor_86 (length (calls ?b) + 10)"
    by blast+
  from s1 have p1: "is_search (calls ?s ! 12)" by (simp add: lb)
  from s2 have p2: "alg_id (self ?s) = 3" by (simp add: lb vendor_86_def)
  then have ne: "alg_id (self ?s) \<noteq> 7777" by simp
  have ls: "length (calls ?s) = 17"
    by (simp add: method_defs run_simps example_defs)
  note T2 = C5_search_until_cached [of dense vendor_86 ?s packed 0 0]
  from T2 d ok ne have
    "calls ?t ! (length (calls ?s) + 10) =
        cusparseLtMatmul (handle (self ?s)) (alpha (self ?s)) (data_ptr packed)
          (data_ptr dense) (beta (self ?s)) (Suc (storages ?s)) (Suc (storages ?s))
          (out_ptr vendor_86 (length (calls ?s) + 8)) (streams (self ?s)) (num_streams (self ?s))"
    by blast
  then have p3: "is_multiply (calls ?t ! 27)" by (simp add: ls)
  from T2 ne obtain cs where
    c: "calls (invoke_all vendor_86 packed ?ms ?s) = calls ?s @ cs"
    and n: "\<forall>c\<in>set cs. \<not> is_search c"
    by blast
  from c ls have "drop 17 (calls (invoke_all vendor_86 packed ?ms ?s)) = cs" by simp
  with n have p4: "filter is_search (drop 17 (calls (invoke_all vendor_86 packed ?ms ?s))) = []"
    by simp
  from d id p1 p2 p3 p4 show ?thesis by blast
qed

text \<open>
  C6: for every multiply call (\<open>cusparselt_mm\<close> and \<open>cusparselt_addmm\<close> are
  \<open>cusparselt_helper\<close> with their bias pointer) on a dense input of shape k x n, the
  first vendor call initialises the dense descriptor with rows = k, cols = n when the
  input is contiguous and rows = n, cols = k when it is not, the leading dimension being
  the column count; and the matmul descriptor, the third call, marks the dense operand
  transposed exactly when the input is not contiguous.
\<close>

theorem C6_dense_layout:
  assumes "sizes input = [k, n]"
      and "s' = snd (cusparselt_helper v wc input dBias biasStride s)"
      and "rows = (if is_contiguous input then k else n)"
      and "cols = (if is_contiguous input then n else k)"
  shows "(\<exists>rest. calls s' =
       calls s @ cusparseLtDenseDescriptorInit (handle (self s)) dense_input_descriptor
         rows cols cols (alignment (self s)) (type (self s)) CUSPARSE_ORDER_ROW # rest) \<and>
     (status v (length (calls s)) = 0 \<and> status v (Suc (length (calls s))) = 0 \<longrightarrow>
       (\<exists>rest. calls s' =
       calls s @ [cusparseLtDenseDescriptorInit (handle (self s)) dense_input_descriptor
         rows cols cols (alignment (self s)) (type (self s)) CUSPARSE_ORDER_ROW,
        cusparseLtDenseDescriptorInit (handle (self s)) res_descriptor
         (num_A_rows (self s)) n n (alignment (self s)) (type (self s)) CUSPARSE_ORDER_ROW,
        cusparseLtMatmulDescriptorInit (handle (self s)) (opA (self s))
         (if is_contiguous input then CUSPARSE_OPERATION_NON_TRANSPOSE
          else CUSPARSE_OPERATION_TRANSPOSE)
         sparse_input_descriptor dense_input_descriptor res_descriptor res_descriptor
         (compute_type (self s))] @ rest))"
proof -
  have d: "2 \<le> length (sizes input)" "sizes input ! 0 = k" "sizes input ! 1 = n"
    using assms(1) by simp_all
  show ?thesis
    using helper_first_calls [OF d(1), of v wc dBias biasStride s]
    unfolding d(2,3) assms(2,3,4) by simp
qed

text \<open>
  C6 on a 32 x 8 input that is not contiguous.
\<close>

theorem C6_dense_layout_witness:
  "sizes dense = [32, 8] \<and> \<not> is_contiguous dense \<and>
   status vendor_86 (length (calls boot)) = 0 \<and>
   status vendor_86 (Suc (length (calls boot))) = 0 \<and>
   (\<exists>rest. calls (snd (cusparselt_helper vendor_86 packed dense 0 0 boot)) =
       calls boot @ [cusparseLtDenseDescriptorInit handle_uninitialized dense_input_descriptor
         8 32 32 0 CUDA_R_8I CUSPARSE_ORDER_ROW,
        cusparseLtDenseDescriptorInit handle_uninitialized res_descriptor
         5 8 8 0 CUDA_R_8I CUSPARSE_ORDER_ROW,
        cusparseLtMatmulDescriptorInit handle_uninitialized CUSPARSE_OPERATION_TRANSPOSE
         CUSPARSE_OPERATION_TRANSPOSE
         sparse_input_descriptor dense_input_descriptor res_descriptor res_descriptor
         CUSPARSE_COMPUTE_32I] @ rest)"
proof -
  have a: "sizes dense = [32, 8]" and b: "\<not> is_contiguous dense"
    by (simp_all add: dense_def)
  have c: "status vendor_86 (length (calls boot)) = 0"
    "status vendor_86 (Suc (length (calls boot))) = 0"
    by (simp_all add: vendor_86_def)
  have m: "handle (self boot) = handle_uninitialized" "alignment (self boot) = 0"
    "type (self boot) = CUDA_R_8I" "num_A_rows (self boot) = 5"
    "opA (self boot) = CUSPARSE_OPERATION_TRANSPOSE"
    "compute_type (self boot) = CUSPARSE_COMPUTE_32I"
    by (simp_all add: boot_def)
  show ?thesis
    using C6_dense_layout [OF a refl refl refl, of vendor_86 packed 0 0 boot] a b c
    unfolding m by simp
qed

text \<open>
  C7, as stated, on the 8.6 device: the log of the constructor and one \<open>compress\<close>
  holds calls that are neither a compression, nor a search, nor a multiplication (the
  library initialisation, the buffer allocation), so the call sequence does not consist
  of those three alone.
\<close>

theorem C7_counterexample:
  "calls (invoke_all vendor_86 packed [call_compress weight False]
       (snd (CusparseLt_new vendor_86 packed boot))) ! 2 = cusparseLtInit \<and>
   \<not> is_compress cusparseLtInit \<and> \<not> is_search cusparseLtInit \<and>
   \<not> is_multiply cusparseLtInit \<and>
   calls (invoke_all vendor_86 packed [call_compress weight False]
       (snd (CusparseLt_new vendor_86 packed boot))) ! 5 = cudaMalloc 64 \<and>
   \<not> is_compress (cudaMalloc 64) \<and> \<not> is_search (cudaMalloc 64) \<and>
   \<not> is_multiply (cudaMalloc 64)"
  by (simp add: method_defs run_simps example_defs)

text \<open>
  C7 (amended): \<open>compress\<close> hands the data pointer of the sparse input straight to
  \<open>cusparseLtSpMMACompress2\<close>, its fourth call after the descriptor, the size query and
  the buffer allocation, without a pruning or pruning-check call; and whatever methods are
  invoked on an object, no call in the log is a pruning or pruning-check call, so of the
  entry points that run a kernel over matrix data (pruning, pruning check, compression,
  search, multiplication) only the compression, the search and the multiplication
  occur.
\<close>

theorem C7_no_pruning:
  "(\<exists>cs. calls (invoke_all v wc ms (snd (CusparseLt_new v t s0))) = calls s0 @ cs \<and>
      (\<forall>c\<in>set cs. \<not> is_prune c \<and>
         (runs_kernel c \<longrightarrow> is_compress c \<or> is_search c \<or> is_multiply c))) \<and>
   (2 \<le> length (sizes sparse_input) \<and> status v (length (calls s)) = 0 \<and>
    status v (Suc (length (calls s))) = 0 \<and> status v (Suc (Suc (length (calls s)))) = 0 \<longrightarrow>
      calls (snd (compress v sparse_input tr s)) =
        calls s @ [cusparseLtStructuredDescriptorInit (handle (self s)) sparse_input_descriptor
          (if tr then sizes sparse_input ! 1 else sizes sparse_input ! 0)
          (if tr then sizes sparse_input ! 0 else sizes sparse_input ! 1)
          (if tr then sizes sparse_input ! 0 else sizes sparse_input ! 1)
          (alignment (self s)) (type (self s))
          CUSPARSE_ORDER_ROW CUSPARSELT_SPARSITY_50_PERCENT,
         cusparseLtSpMMACompressedSize2 (handle (self s)) sparse_input_descriptor,
         cudaMalloc (out_size2 v (Suc (length (calls s)))),
         cusparseLtSpMMACompress2 (handle (self s)) sparse_input_descriptor True
           (if tr then CUSPARSE_OPERATION_TRANSPOSE else CUSPARSE_OPERATION_NON_TRANSPOSE)
           (data_ptr sparse_input) (data_ptr (sparse_compressed (self s)))
           (out_ptr v (Suc (Suc (length (calls s))))) (stream (self s))])"
proof -
  let ?s1 = "snd (CusparseLt_new v t s0)"
  from new_log [of v t s0] obtain cs1 where
    a: "calls ?s1 = calls s0 @ cs1" and b: "\<forall>c\<in>set cs1. \<not> runs_kernel c" by blast
  from invoke_all_step [of ?s1 v wc ms] obtain cs2 where
    c: "calls (invoke_all v wc ms ?s1) = calls ?s1 @ cs2"
    and d: "\<forall>c\<in>set cs2. issued_by (self ?s1) c" by blast
  have "\<forall>c\<in>set (cs1 @ cs2). \<not> is_prune c \<and>
         (runs_kernel c \<longrightarrow> is_compress c \<or> is_search c \<or> is_multiply c)"
    using b d by (auto simp: runs_kernel_def issued_by_def)
  moreover have "calls (invoke_all v wc ms ?s1) = calls s0 @ (cs1 @ cs2)"
    using a c by simp
  ultimately have "\<exists>cs. calls (invoke_all v wc ms ?s1) = calls s0 @ cs \<and>
      (\<forall>c\<in>set cs. \<not> is_prune c \<and>
         (runs_kernel c \<longrightarrow> is_compress c \<or> is_search c \<or> is_multiply c))"
    by blast
  then show ?thesis
    using compress_all_calls [of sparse_input v s tr] by blast
qed

text \<open>
  C7 (amended) on the 8.6 device: the whole log after one \<open>compress\<close>.
\<close>

theorem C7_no_pruning_witness:
  "2 \<le> length (sizes weight) \<and>
   status vendor_86 (length (calls (snd (CusparseLt_new vendor_86 packed boot)))) = 0 \<and>
   status vendor_86 (Suc (length (calls (snd (CusparseLt_new vendor_86 packed boot))))) = 0 \<and>
   status vendor_86 (Suc (Suc (length (calls (snd (CusparseLt_new vendor_86 packed boot)))))) = 0 \<and>
   calls (snd (compress vendor_86 weight False (snd (CusparseLt_new vendor_86 packed boot)))) =
     [cudaDeviceGetAttribute cudaDevAttrComputeCapabilityMajor 0,
      cudaDeviceGetAttribute cudaDevAttrComputeCapabilityMinor 0,
      cusparseLtInit,
      cusparseLtStructuredDescriptorInit handle_initialized sparse_input_descriptor
        64 32 32 16 CUDA_R_8I CUSPARSE_ORDER_ROW CUSPARSELT_SPARSITY_50_PERCENT,
      cusparseLtSpMMACompressedSize2 handle_initialized sparse_input_descriptor,
      cudaMalloc 64,
      cusparseLtSpMMACompress2 handle_initialized sparse_input_descriptor True
        CUSPARSE_OPERATION_NON_TRANSPOSE 100 200 1005 0] \<and>
   filter is_prune (calls (invoke_all vendor_86 packed [call_compress weight False]
        (snd (CusparseLt_new vendor_86 packed boot)))) = []"
proof -
  let ?b = "snd (CusparseLt_new vendor_86 packed boot)"
  have b: "?b = \<lparr>self = \<lparr>sparse_compressed = packed, handle = handle_initialized,
              alignment = 16, alpha = 1, beta = 0, num_streams = 0, stream = 0, streams = 0,
              d_workspace = 0, alg_id = 7777, num_A_rows = 5,
              pruning_algo = CUSPARSELT_PRUNE_SPMMA_STRIP,
              opA = CUSPARSE_OPERATION_TRANSPOSE, type = CUDA_R_8I,
              compute_type = CUSPARSE_COMPUTE_32I\<rparr>,
      calls = [cudaDeviceGetAttribute cudaDevAttrComputeCapabilityMajor 0,
               cudaDeviceGetAttribute cudaDevAttrComputeCapabilityMinor 0, cusparseLtInit],
      stdout = [], storages = 5\<rparr>"
    by (simp add: method_defs run_simps example_defs)
  have h: "2 \<le> length (sizes weight)" "status vendor_86 (length (calls ?b)) = 0"
    "status vendor_86 (Suc (length (calls ?b))) = 0"
    "status vendor_86 (Suc (Suc (length (calls ?b)))) = 0"
    by (simp_all add: weight_def vendor_86_def)
  have e: "calls boot = []" by (simp add: boot_def)
  note T = C7_no_pruning [of vendor_86 packed "[call_compress weight False]" packed boot
      weight ?b False]
  from T h have "calls (snd (compress vendor_86 weight False ?b)) =
        calls ?b @ [cusparseLtStructuredDescriptorInit (handle (self ?b)) sparse_input_descriptor
          (if False then sizes weight ! 1 else sizes weight ! 0)
          (if False then sizes weight ! 0 else sizes weight ! 1)
          (if False then sizes weight ! 0 else sizes weight ! 1)
          (alignment (self ?b)) (type (self ?b))
          CUSPARSE_ORDER_ROW CUSPARSELT_SPARSITY_50_PERCENT,
         cusparseLtSpMMACompressedSize2 (handle (self ?b)) sparse_input_descriptor,
         cudaMalloc (out_size2 vendor_86 (Suc (length (calls ?b)))),
         cusparseLtSpMMACompress2 (handle (self ?b)) sparse_input_descriptor True
           (if False then CUSPARSE_OPERATION_TRANSPOSE else CUSPARSE_OPERATION_NON_TRANSPOSE)
           (data_ptr weight) (data_ptr (sparse_compressed (self ?b)))
           (out_ptr vendor_86 (Suc (Suc (length (calls ?b))))) (stream (self ?b))]"
    by blast
  then have c: "calls (snd (compress vendor_86 weight False ?b)) =
     [cudaDeviceGetAttribute cudaDevAttrComputeCapabilityMajor 0,
      cudaDeviceGetAttribute cudaDevAttrComputeCapabilityMinor 0,
      cusparseLtInit,
      cusparseLtStructuredDescriptorInit handle_initialized sparse_input_descriptor
        64 32 32 16 CUDA_R_8I CUSPARSE_ORDER_ROW CUSPARSELT_SPARSITY_50_PERCENT,
      cusparseLtSpMMACompressedSize2 handle_initialized sparse_input_descriptor,
      cudaMalloc 64,
      cusparseLtSpMMACompress2 handle_initialized sparse_input_descriptor True
        CUSPARSE_OPERATION_NON_TRANSPOSE 100 200 1005 0]"
    unfolding b by (simp add: example_defs)
  from T e have "\<forall>c\<in>set (calls (invoke_all vendor_86 packed [call_compress weight False] ?b)).
      \<not> is_prune c"
    by auto
  then have "filter is_prune (calls (invoke_all vendor_86 packed [call_compress weight False] ?b))
      = []"
    by simp
  with h c show ?thesis by blast
qed

text \<open>
  C8: \<open>alpha\<close> is 1 and \<open>beta\<close> is 0 after construction and after any sequence of
  methods, and every search and every multiplication in the log was given exactly these
  two factors. A tensor that \<open>cusparselt_mm\<close> or \<open>cusparselt_addmm\<close> returns is the
  output of the one kernel call that call made: it is on storage handed out during the
  call, its data pointer is both output pointers of the kernel call, the factors of that
  call are 1 and 0, and the bias pointer set on the matmul descriptor is null for
  \<open>cusparselt_mm\<close> and the data pointer of the bias for \<open>cusparselt_addmm\<close>.
\<close>

theorem C8_alpha_beta:
  assumes "s = invoke_all v wc ms (snd (CusparseLt_new v t s0))"
  shows "alpha (self s) = 1 \<and> beta (self s) = 0 \<and>
     (\<exists>cs. calls s = calls s0 @ cs \<and>
        (\<forall>c\<in>set cs. is_search c \<or> is_multiply c \<longrightarrow> scaling_of c = Some (1, 0))) \<and>
     (\<forall>input res s'. cusparselt_mm v wc input s = (Inr res, s') \<longrightarrow>
        returns_kernel_output wc input nullptr s res s') \<and>
     (\<forall>input bias res s'. cusparselt_addmm v wc input bias s = (Inr res, s') \<longrightarrow>
        returns_kernel_output wc input (data_ptr bias) s res s')"
proof -
  let ?s1 = "snd (CusparseLt_new v t s0)"
  have m: "alpha (self ?s1) = 1" "beta (self ?s1) = 0"
    using new_members [of v t s0] by simp_all
  from new_log [of v t s0] obtain cs1 where
    a: "calls ?s1 = calls s0 @ cs1" and b: "\<forall>c\<in>set cs1. \<not> runs_kernel c" by blast
  from invoke_all_step [of ?s1 v wc ms] obtain cs2 where
    c: "calls s = calls ?s1 @ cs2"
    and d: "\<forall>c\<in>set cs2. issued_by (self ?s1) c"
    and e: "same_setup (self ?s1) (self s)"
    unfolding assms by blast
  have f: "scaling_of c = Some (1, 0)"
    if "c \<in> set cs2" and "is_search c \<or> is_multiply c" for c
  proof -
    from that(1) d have "scaling_of c = None \<or> scaling_of c = Some (1, 0)"
      by (simp add: issued_by_def m)
    moreover from that(2) have "scaling_of c \<noteq> None"
      by (cases c) simp_all
    ultimately show ?thesis by blast
  qed
  have g: "\<not> (is_search c \<or> is_multiply c)" if "c \<in> set cs1" for c
    using that b by (simp add: runs_kernel_def)
  have "\<forall>c\<in>set (cs1 @ cs2). is_search c \<or> is_multiply c \<longrightarrow> scaling_of c = Some (1, 0)"
    using f g by auto
  moreover have "calls s = calls s0 @ (cs1 @ cs2)"
    using a c by simp
  ultimately have logged: "\<exists>cs. calls s = calls s0 @ cs \<and>
        (\<forall>c\<in>set cs. is_search c \<or> is_multiply c \<longrightarrow> scaling_of c = Some (1, 0))"
    by blast
  have k: "alpha (self s) = 1" "beta (self s) = 0"
    using e m by (simp_all add: same_setup_def)
  have mm: "returns_kernel_output wc input nullptr s res s'"
    if "cusparselt_mm v wc input s = (Inr res, s')" for input res s'
    using that k unfolding cusparselt_mm_def by (rule helper_returned_kernel)
  have addmm: "returns_kernel_output wc input (data_ptr bias) s res s'"
    if "cusparselt_addmm v wc input bias s = (Inr res, s')" for input bias res s'
    using that k unfolding cusparselt_addmm_def by (rule helper_returned_kernel)
  from k logged mm addmm show ?thesis by blast
qed

text \<open>
  C8 on the 8.6 device: the search of the first multiply call (call 16), and a following
  \<open>cusparselt_addmm\<close>, whose call 31 is the multiplication writing the returned
  tensor.
\<close>

theorem C8_alpha_beta_witness:
  "is_search (calls (invoke_all vendor_86 packed
      [call_compress weight False, call_cusparselt_mm dense]
      (snd (CusparseLt_new vendor_86 packed boot))) ! 16) \<and>
   scaling_of (calls (invoke_all vendor_86 packed
      [call_compress weight False, call_cusparselt_mm dense]
      (snd (CusparseLt_new vendor_86 packed boot))) ! 16) = Some (1, 0) \<and>
   alpha (self (invoke_all vendor_86 packed
      [call_compress weight False, call_cusparselt_mm dense]
      (snd (CusparseLt_new vendor_86 packed boot)))) = 1 \<and>
   beta (self (invoke_all vendor_86 packed
      [call_compress weight False, call_cusparselt_mm dense]
      (snd (CusparseLt_new vendor_86 packed boot)))) = 0 \<and>
   (\<exists>res s'. cusparselt_addmm vendor_86 packed dense bias_vec (invoke_all vendor_86 packed
        [call_compress weight False, call_cusparselt_mm dense]
        (snd (CusparseLt_new vendor_86 packed boot))) = (Inr res, s') \<and>
      data_ptr res = 7 \<and>
      calls s' ! 24 = cusparseLtMatmulDescSetAttribute handle_initialized
        CUSPARSELT_MATMUL_BIAS_POINTER 500 \<and>
      calls s' ! 31 = cusparseLtMatmul handle_initialized 1 200 400 0 7 7 1029 0 0)"
proof -
  let ?x = "invoke_all vendor_86 packed
      [call_compress weight False, call_cusparselt_mm dense]
      (snd (CusparseLt_new vendor_86 packed boot))"
  let ?r = "cusparselt_addmm vendor_86 packed dense bias_vec ?x"
  have l: "length (calls ?x) = 21" and s: "is_search (calls ?x ! 16)"
    by (simp_all add: method_defs run_simps example_defs)
  have e: "calls boot = []" by (simp add: boot_def)
  note T = C8_alpha_beta [OF refl, of vendor_86 packed
      "[call_compress weight False, call_cusparselt_mm dense]" packed boot]
  from T e have "\<forall>c\<in>set (calls ?x). is_search c \<or> is_multiply c \<longrightarrow>
      scaling_of c = Some (1, 0)"
    by auto
  moreover have "calls ?x ! 16 \<in> set (calls ?x)"
    using l by (intro nth_mem) simp
  ultimately have p1: "scaling_of (calls ?x ! 16) = Some (1, 0)"
    using s by blast
  have x: "alg_id (self ?x) = 3" "storages ?x = 6" "handle (self ?x) = handle_initialized"
    "streams (self ?x) = 0" "num_streams (self ?x) = 0"
    by (simp_all add: method_defs run_simps example_defs)
  obtain res s' where run: "?r = (Inr res, s')"
    and y: "storages s' = 7" "d_workspace (self s') = 1029"
  proof -
    have "\<exists>res. fst ?r = Inr res" "storages (snd ?r) = 7" "d_workspace (self (snd ?r)) = 1029"
      by (simp_all add: method_defs run_simps example_defs)
    then show ?thesis using that by (cases ?r) auto
  qed
  from T run have k: "returns_kernel_output packed dense (data_ptr bias_vec) ?x res s'"
    by blast
  have o: "data_ptr packed = 200" "data_ptr dense = 400" "data_ptr bias_vec = 500"
    by (simp_all add: example_defs)
  from k x(2) y(1) have p: "data_ptr res = 7"
    unfolding returns_kernel_output_def by (simp del: invoke_all.simps)
  from k have "calls s' ! (length (calls ?x) + 3) =
       cusparseLtMatmulDescSetAttribute (handle (self ?x)) CUSPARSELT_MATMUL_BIAS_POINTER
         (int (data_ptr bias_vec))"
    and "calls s' ! (length (calls ?x) + 10) =
        cusparseLtMatmul (handle (self ?x)) 1 (data_ptr packed) (data_ptr dense) 0
          (data_ptr res) (data_ptr res) (d_workspace (self s')) (streams (self ?x))
          (num_streams (self ?x))"
    unfolding returns_kernel_output_def using x(1) by (simp_all del: invoke_all.simps)
  then have q: "calls s' ! 24 = cusparseLtMatmulDescSetAttribute handle_initialized
        CUSPARSELT_MATMUL_BIAS_POINTER 500"
    "calls s' ! 31 = cusparseLtMatmul handle_initialized 1 200 400 0 7 7 1029 0 0"
    by (simp_all add: l x y o p del: invoke_all.simps)
  from s p1 T run p q show ?thesis by blast
qed

text \<open>
  C9: the constructor, \<open>compress\<close>, \<open>cusparselt_mm\<close> and \<open>cusparselt_addmm\<close> check
  the status of every vendor call: a call that does not succeed is the last one the
  operation makes, and the operation raises the error carrying that status.
\<close>

theorem C9_status_checked:
  "checks_every_status v (CusparseLt_new v t) \<and>
   checks_every_status v (compress v sparse_input tr) \<and>
   checks_every_status v (cusparselt_mm v wc input) \<and>
   checks_every_status v (cusparselt_addmm v wc input bias)"
  unfolding cusparselt_mm_def cusparselt_addmm_def
  by (simp add: checks_new checks_compress checks_helper)

text \<open>
  C9 on a vendor whose call 16, the search, returns status 3: the multiply call stops
  there, with 17 calls in the log, and raises.
\<close>

theorem C9_status_checked_witness:
  "status vendor_failing 16 \<noteq> 0 \<and>
   length (calls (snd (cusparselt_mm vendor_failing packed dense
      (invoke_all vendor_failing packed [call_compress weight False]
        (snd (CusparseLt_new vendor_failing packed boot)))))) = 17 \<and>
   (fst (cusparselt_mm vendor_failing packed dense
      (invoke_all vendor_failing packed [call_compress weight False]
        (snd (CusparseLt_new vendor_failing packed boot)))) = Inl (CudaApiFailed 3) \<or>
    fst (cusparselt_mm vendor_failing packed dense
      (invoke_all vendor_failing packed [call_compress weight False]
        (snd (CusparseLt_new vendor_failing packed boot)))) = Inl (CusparseApiFailed 3))"
proof -
  let ?s = "invoke_all vendor_failing packed [call_compress weight False]
        (snd (CusparseLt_new vendor_failing packed boot))"
  let ?r = "cusparselt_mm vendor_failing packed dense ?s"
  have l: "length (calls ?s) = 7" "length (calls (snd ?r)) = 17"
    by (simp_all add: method_defs run_simps example_defs)
  have f: "status vendor_failing 16 = 3" by (simp add: vendor_failing_def)
  from C9_status_checked [of vendor_failing packed weight False packed dense bias_vec]
  have "checks_every_status vendor_failing (cusparselt_mm vendor_failing packed dense)"
    by blast
  then obtain cs where c: "calls (snd ?r) = calls ?s @ cs"
    and p: "\<forall>i<length cs. status vendor_failing (length (calls ?s) + i) \<noteq> 0 \<longrightarrow>
           Suc i = length cs \<and>
           (fst ?r = Inl (CudaApiFailed (status vendor_failing (length (calls ?s) + i))) \<or>
            fst ?r = Inl (CusparseApiFailed (status vendor_failing (length (calls ?s) + i))))"
    unfolding checks_every_status_def by blast
  have "length (calls (snd ?r)) = length (calls ?s) + length cs"
    using c by simp
  with l have "length cs = 10" by simp
  with p [rule_format, of 9] l(1) f
  have "fst ?r = Inl (CudaApiFailed 3) \<or> fst ?r = Inl (CusparseApiFailed 3)"
    by simp
  with l(2) f show ?thesis by simp
qed

text \<open>
  C10: when the two attribute queries succeed and the compute capability is none of 8.0,
  8.6, 8.9, the constructor prints the message and returns an object without raising:
  \<open>cusparseLtInit\<close> is not called, the handle stays uninitialised, the type pair stays
  the default one; and every later \<open>compress\<close> or multiply call on a tensor with two
  dimensions hands that uninitialised handle to its first vendor call, no later call
  ever initialising it.
\<close>

theorem C10_unsupported_device:
  assumes "status v (length (calls s0)) = 0"
      and "status v (Suc (length (calls s0))) = 0"
      and "\<not> (out_int v (length (calls s0)) = 8 \<and>
              out_int v (Suc (length (calls s0))) \<in> {0, 6, 9})"
  shows "\<exists>s1. CusparseLt_new v t s0 = (Inr (), s1) \<and>
      calls s1 = calls s0 @ [cudaDeviceGetAttribute cudaDevAttrComputeCapabilityMajor 0,
                             cudaDeviceGetAttribute cudaDevAttrComputeCapabilityMinor 0] \<and>
      stdout s1 = stdout s0 @ [(unsupported_message,
         [out_int v (length (calls s0)), out_int v (Suc (length (calls s0)))])] \<and>
      handle (self s1) = handle_uninitialized \<and>
      type (self s1) = CUDA_R_16F \<and> compute_type (self s1) = CUSPARSE_COMPUTE_16F \<and>
      (\<forall>ms. handle (self (invoke_all v wc ms s1)) = handle_uninitialized \<and>
         (\<exists>cs. calls (invoke_all v wc ms s1) = calls s1 @ cs \<and>
            (\<forall>c\<in>set cs. c \<noteq> cusparseLtInit \<and> handle_of c \<noteq> Some handle_initialized)) \<and>
         (\<forall>x tr. 2 \<le> length (sizes x) \<longrightarrow>
            (\<exists>c rest. calls (snd (compress v x tr (invoke_all v wc ms s1))) =
                 calls (invoke_all v wc ms s1) @ c # rest \<and>
               handle_of c = Some handle_uninitialized)) \<and>
         (\<forall>x dBias biasStride. 2 \<le> length (sizes x) \<longrightarrow>
            (\<exists>c rest. calls (snd (cusparselt_helper v wc x dBias biasStride
                   (invoke_all v wc ms s1))) =
                 calls (invoke_all v wc ms s1) @ c # rest \<and>
               handle_of c = Some handle_uninitialized)))"
proof -
  let ?s1 = "s0\<lparr>self := member_init t (self s0),
        calls := calls s0 @ [cudaDeviceGetAttribute cudaDevAttrComputeCapabilityMajor 0,
                             cudaDeviceGetAttribute cudaDevAttrComputeCapabilityMinor 0],
        stdout := stdout s0 @ [(unsupported_message,
           [out_int v (length (calls s0)), out_int v (Suc (length (calls s0)))])]\<rparr>"
  have run: "CusparseLt_new v t s0 = (Inr (), ?s1)"
    by (rule new_unsupported [OF assms])
  have h1: "handle (self ?s1) = handle_uninitialized"
    by (simp add: member_init_def)
  have later: "handle (self (invoke_all v wc ms ?s1)) = handle_uninitialized \<and>
         (\<exists>cs. calls (invoke_all v wc ms ?s1) = calls ?s1 @ cs \<and>
            (\<forall>c\<in>set cs. c \<noteq> cusparseLtInit \<and> handle_of c \<noteq> Some handle_initialized)) \<and>
         (\<forall>x tr. 2 \<le> length (sizes x) \<longrightarrow>
            (\<exists>c rest. calls (snd (compress v x tr (invoke_all v wc ms ?s1))) =
                 calls (invoke_all v wc ms ?s1) @ c # rest \<and>
               handle_of c = Some handle_uninitialized)) \<and>
         (\<forall>x dBias biasStride. 2 \<le> length (sizes x) \<longrightarrow>
            (\<exists>c rest. calls (snd (cusparselt_helper v wc x dBias biasStride
                   (invoke_all v wc ms ?s1))) =
                 calls (invoke_all v wc ms ?s1) @ c # rest \<and>
               handle_of c = Some handle_uninitialized))" for ms
  proof -
    let ?s = "invoke_all v wc ms ?s1"
    from invoke_all_step [of ?s1 v wc ms] obtain cs where
      a: "same_setup (self ?s1) (self ?s)" and b: "calls ?s = calls ?s1 @ cs"
      and c: "\<forall>c\<in>set cs. issued_by (self ?s1) c" by blast
    have h: "handle (self ?s) = handle_uninitialized"
      using a h1 by (simp add: same_setup_def)
    have "\<forall>c\<in>set cs. c \<noteq> cusparseLtInit \<and> handle_of c \<noteq> Some handle_initialized"
      using c h1 by (auto simp: issued_by_def)
    with b have p2: "\<exists>cs. calls ?s = calls ?s1 @ cs \<and>
            (\<forall>c\<in>set cs. c \<noteq> cusparseLtInit \<and> handle_of c \<noteq> Some handle_initialized)"
      by blast
    have p3: "\<exists>c rest. calls (snd (compress v x tr ?s)) = calls ?s @ c # rest \<and>
               handle_of c = Some handle_uninitialized"
      if "2 \<le> length (sizes x)" for x tr
    proof -
      from compress_first_call [OF that, of v tr ?s] obtain rest where
        "calls (snd (compress v x tr ?s)) =
          calls ?s @ cusparseLtStructuredDescriptorInit (handle (self ?s)) sparse_input_descriptor
         (if tr then sizes x ! 1 else sizes x ! 0) (if tr then sizes x ! 0 else sizes x ! 1)
         (if tr then sizes x ! 0 else sizes x ! 1) (alignment (self ?s)) (type (self ?s))
         CUSPARSE_ORDER_ROW CUSPARSELT_SPARSITY_50_PERCENT # rest"
        by blast
      moreover have "handle_of (cusparseLtStructuredDescriptorInit (handle (self ?s))
         sparse_input_descriptor
         (if tr then sizes x ! 1 else sizes x ! 0) (if tr then sizes x ! 0 else sizes x ! 1)
         (if tr then sizes x ! 0 else sizes x ! 1) (alignment (self ?s)) (type (self ?s))
         CUSPARSE_ORDER_ROW CUSPARSELT_SPARSITY_50_PERCENT) = Some handle_uninitialized"
        using h by simp
      ultimately show ?thesis by blast
    qed
    have p4: "\<exists>c rest. calls (snd (cusparselt_helper v wc x dBias biasStride ?s)) =
                 calls ?s @ c # rest \<and> handle_of c = Some handle_uninitialized"
      if "2 \<le> length (sizes x)" for x dBias biasStride
    proof -
      from helper_first_calls [OF that, of v wc dBias biasStride ?s] obtain rest where
        "calls (snd (cusparselt_helper v wc x dBias biasStride ?s)) =
          calls ?s @ cusparseLtDenseDescriptorInit (handle (self ?s)) dense_input_descriptor
         (if is_contiguous x then sizes x ! 0 else sizes x ! 1)
         (if is_contiguous x then sizes x ! 1 else sizes x ! 0)
         (if is_contiguous x then sizes x ! 1 else sizes x ! 0)
         (alignment (self ?s)) (type (self ?s)) CUSPARSE_ORDER_ROW # rest"
        by blast
      moreover have "handle_of (cusparseLtDenseDescriptorInit (handle (self ?s))
         dense_input_descriptor
         (if is_contiguous x then sizes x ! 0 else sizes x ! 1)
         (if is_contiguous x then sizes x ! 1 else sizes x ! 0)
         (if is_contiguous x then sizes x ! 1 else sizes x ! 0)
         (alignment (self ?s)) (type (self ?s)) CUSPARSE_ORDER_ROW) = Some handle_uninitialized"
        using h by simp
      ultimately show ?thesis by blast
    qed
    from h p2 p3 p4 show ?thesis by blast
  qed
  have "calls ?s1 = calls s0 @ [cudaDeviceGetAttribute cudaDevAttrComputeCapabilityMajor 0,
                             cudaDeviceGetAttribute cudaDevAttrComputeCapabilityMinor 0]"
    and "stdout ?s1 = stdout s0 @ [(unsupported_message,
         [out_int v (length (calls s0)), out_int v (Suc (length (calls s0)))])]"
    and "type (self ?s1) = CUDA_R_16F" and "compute_type (self ?s1) = CUSPARSE_COMPUTE_16F"
    by (simp_all add: member_init_def)
  with run h1 later show ?thesis by blast
qed

text \<open>
  C10 on a device of compute capability 7.5.
\<close>

theorem C10_unsupported_device_witness:
  "status vendor_75 (length (calls boot)) = 0 \<and>
   status vendor_75 (Suc (length (calls boot))) = 0 \<and>
   \<not> (out_int vendor_75 (length (calls boot)) = 8 \<and>
      out_int vendor_75 (Suc (length (calls boot))) \<in> {0, 6, 9}) \<and>
   (\<exists>s1. CusparseLt_new vendor_75 packed boot = (Inr (), s1) \<and>
      stdout s1 = [(unsupported_message, [7, 5])] \<and>
      handle (self s1) = handle_uninitialized \<and>
      (\<exists>c rest. calls (snd (compress vendor_75 weight False s1)) = calls s1 @ c # rest \<and>
         handle_of c = Some handle_uninitialized))"
proof -
  have h: "status vendor_75 (length (calls boot)) = 0"
    "status vendor_75 (Suc (length (calls boot))) = 0"
    "\<not> (out_int vendor_75 (length (calls boot)) = 8 \<and>
      out_int vendor_75 (Suc (length (calls boot))) \<in> {0, 6, 9})"
    by (simp_all add: vendor_75_def boot_def)
  have o: "out_int vendor_75 (length (calls boot)) = 7"
    "out_int vendor_75 (Suc (length (calls boot))) = 5" "stdout boot = []"
    by (simp_all add: vendor_75_def boot_def)
  have w: "2 \<le> length (sizes weight)" by (simp add: weight_def)
  from C10_unsupported_device [OF h, of packed packed] obtain s1 where
    a: "CusparseLt_new vendor_75 packed boot = (Inr (), s1)"
    and b: "stdout s1 = stdout boot @ [(unsupported_message,
         [out_int vendor_75 (length (calls boot)), out_int vendor_75 (Suc (length (calls boot)))])]"
    and c: "handle (self s1) = handle_uninitialized"
    and d: "\<forall>ms. handle (self (invoke_all vendor_75 packed ms s1)) = handle_uninitialized \<and>
         (\<exists>cs. calls (invoke_all vendor_75 packed ms s1) = calls s1 @ cs \<and>
            (\<forall>c\<in>set cs. c \<noteq> cusparseLtInit \<and> handle_of c \<noteq> Some handle_initialized)) \<and>
         (\<forall>x tr. 2 \<le> length (sizes x) \<longrightarrow>
            (\<exists>c rest. calls (snd (compress vendor_75 x tr (invoke_all vendor_75 packed ms s1))) =
                 calls (invoke_all vendor_75 packed ms s1) @ c # rest \<and>
               handle_of c = Some handle_uninitialized)) \<and>
         (\<forall>x dBias biasStride. 2 \<le> length (sizes x) \<longrightarrow>
            (\<exists>c rest. calls (snd (cusparselt_helper vendor_75 packed x dBias biasStride
                   (invoke_all vendor_75 packed ms s1))) =
                 calls (invoke_all vendor_75 packed ms s1) @ c # rest \<and>
               handle_of c = Some handle_uninitialized))"
    by blast
  from d [rule_format, of "[]"] w
  have "\<exists>c rest. calls (snd (compress vendor_75 weight False s1)) = calls s1 @ c # rest \<and>
         handle_of c = Some handle_uninitialized"
    by simp
  moreover from b o have "stdout s1 = [(unsupported_message, [7, 5])]" by simp
  ultimately show ?thesis using h a c by blast
qed

end
